theory Spec2Isabelle
  imports Complex_Main "HOL-Library.Sublist"
begin

section \<open>Bayesian optimisation in the latent space of a VAE (vae_mnist.py)\<close>

text \<open>
  A shallow embedding of the script \<^verbatim>\<open>vae_mnist.py\<close>. Tensors of dtype
  \<^verbatim>\<open>torch.double\<close> are lists over \<^typ>\<open>real\<close>: a vector is a list, a
  \<open>b x k\<close> tensor is the list of its \<open>b\<close> rows. Floating-point rounding is not
  modelled. Every Python exception is a value of \<open>error\<close>; a function that can raise
  returns \<open>error + 'a\<close> with \<open>Inl\<close> for the exception.
\<close>

subsection \<open>Exceptions and tensors\<close>

datatype error =
    FileNotFoundError
  | UnpicklingError
  | RuntimeError
  | LibraryError

type_synonym vec = "real list"
type_synonym tensor2 = "real list list"
type_synonym image = "real list"

text \<open>Running a fallible function over the rows of a batch; the first exception wins.\<close>

fun map_rows :: "('a \<Rightarrow> error + 'b) \<Rightarrow> 'a list \<Rightarrow> error + 'b list" where
  "map_rows f [] = Inr []"
| "map_rows f (x # xs) =
     (case f x of
        Inl e \<Rightarrow> Inl e
      | Inr y \<Rightarrow> (case map_rows f xs of Inl e \<Rightarrow> Inl e | Inr ys \<Rightarrow> Inr (y # ys)))"

text \<open>
  \<^verbatim>\<open>t.max()\<close> of a one-dimensional tensor: PyTorch raises a RuntimeError on a
  tensor with no elements.
\<close>

definition tensor_max :: "vec \<Rightarrow> error + real" where
  "tensor_max t = (case t of [] \<Rightarrow> Inl RuntimeError | x # xs \<Rightarrow> Inr (fold max xs x))"

subsection \<open>Layers of the frozen networks\<close>

text \<open>
  \<^verbatim>\<open>nn.Linear(i, o)\<close>: a weight matrix of \<open>o\<close> rows of width \<open>i\<close> and a bias of
  length \<open>o\<close>. Applying the layer to a vector whose width is not that of the weight rows
  raises a RuntimeError (the shapes cannot be multiplied).
\<close>

record linear =
  weight :: "real list list"
  bias :: "real list"

definition dot :: "vec \<Rightarrow> vec \<Rightarrow> real" where
  "dot w x = sum_list (map2 (*) w x)"

definition F_linear :: "linear \<Rightarrow> vec \<Rightarrow> error + vec" where
  "F_linear l x =
     (if list_all (\<lambda>w. length w = length x) (weight l)
      then Inr (map2 (\<lambda>w b. dot w x + b) (weight l) (bias l))
      else Inl RuntimeError)"

definition relu :: "vec \<Rightarrow> vec" where
  "relu x = map (max 0) x"

definition sigmoid :: "vec \<Rightarrow> vec" where
  "sigmoid x = map (\<lambda>v. 1 / (1 + exp (- v))) x"

text \<open>\<^verbatim>\<open>F.log_softmax(x, dim=1)\<close> on one row: \<open>x\<^sub>i - ln (\<Sum>\<^sub>j exp x\<^sub>j)\<close>.\<close>

definition log_softmax :: "vec \<Rightarrow> vec" where
  "log_softmax x = map (\<lambda>v. v - ln (sum_list (map exp x))) x"

subsection \<open>The classifier \<^verbatim>\<open>Net\<close> and the decoder of \<^verbatim>\<open>VAE\<close>\<close>

text \<open>
  \<^verbatim>\<open>Net.forward\<close>, one image at a time. The convolutional front
  (\<^verbatim>\<open>conv1, relu, max_pool2d, conv2, relu, max_pool2d, view(-1, 800)\<close>) is a frozen
  function of the image, carried in the record; the two fully connected layers and the
  log-softmax are written out.
\<close>

record Net =
  conv_front :: "image \<Rightarrow> vec"
  fc1 :: linear
  fc2 :: linear

definition Net_forward :: "Net \<Rightarrow> image \<Rightarrow> error + vec" where
  "Net_forward net x =
     (case F_linear (fc1 net) (conv_front net x) of
        Inl e \<Rightarrow> Inl e
      | Inr h \<Rightarrow>
          (case F_linear (fc2 net) (relu h) of
             Inl e \<Rightarrow> Inl e
           | Inr y \<Rightarrow> Inr (log_softmax y)))"

text \<open>
  Of \<^verbatim>\<open>VAE\<close> the script only calls \<^verbatim>\<open>decode\<close>, which uses the layers
  \<^verbatim>\<open>fc3 = nn.Linear(20, 400)\<close> and \<^verbatim>\<open>fc4 = nn.Linear(400, 784)\<close>.
\<close>

record VAE =
  fc3 :: linear
  fc4 :: linear

definition VAE_decode :: "VAE \<Rightarrow> vec \<Rightarrow> error + image" where
  "VAE_decode vae z =
     (case F_linear (fc3 vae) z of
        Inl e \<Rightarrow> Inl e
      | Inr h3 \<Rightarrow>
          (case F_linear (fc4 vae) (relu h3) of
             Inl e \<Rightarrow> Inl e
           | Inr y \<Rightarrow> Inr (sigmoid y)))"

subsection \<open>The scoring function and the objective\<close>

text \<open>\<^verbatim>\<open>score(y) = torch.exp(-2 * (y - 3) ** 2)\<close>, on one entry.\<close>

definition score :: "real \<Rightarrow> real" where
  "score y = exp (- 2 * (y - 3) ^ 2)"

text \<open>\<^verbatim>\<open>torch.arange(10)\<close> as a vector of reals.\<close>

definition arange :: "nat \<Rightarrow> vec" where
  "arange n = map real [0..<n]"

text \<open>
  The last two steps of \<^verbatim>\<open>score_image\<close> on one row \<open>probs\<close> of class
  probabilities: \<^verbatim>\<open>scores = score(arange(10)).expand(probs.shape)\<close> raises a
  RuntimeError unless the row has ten entries, and
  \<^verbatim>\<open>(probs * scores).sum(dim=1)\<close> is the weighted sum.
\<close>

definition expected_score :: "vec \<Rightarrow> error + real" where
  "expected_score probs =
     (if length probs = 10
      then Inr (sum_list (map2 (*) probs (map score (arange 10))))
      else Inl RuntimeError)"

definition score_image_row :: "Net \<Rightarrow> image \<Rightarrow> error + real" where
  "score_image_row cnn_model x =
     (case Net_forward cnn_model x of
        Inl e \<Rightarrow> Inl e
      | Inr logp \<Rightarrow> expected_score (map exp logp))"

definition score_image :: "Net \<Rightarrow> image list \<Rightarrow> error + vec" where
  "score_image cnn_model x = map_rows (score_image_row cnn_model) x"

text \<open>
  \<^verbatim>\<open>decode(train_x)\<close>: the decoder on every row, then
  \<^verbatim>\<open>view(train_x.shape[0], 1, 28, 28)\<close>, which raises unless every decoded row has
  \<open>784 = 28 * 28\<close> entries. An image is kept as the flat list of its pixels.
\<close>

definition decode :: "VAE \<Rightarrow> tensor2 \<Rightarrow> error + image list" where
  "decode vae_model train_x =
     (case map_rows (VAE_decode vae_model) train_x of
        Inl e \<Rightarrow> Inl e
      | Inr decoded \<Rightarrow>
          if list_all (\<lambda>img. length img = 784) decoded then Inr decoded
          else Inl RuntimeError)"

text \<open>The objective the optimiser sees: \<^verbatim>\<open>score_image(decode(x))\<close>.\<close>

definition objective :: "Net \<Rightarrow> VAE \<Rightarrow> tensor2 \<Rightarrow> error + vec" where
  "objective cnn_model vae_model x =
     (case decode vae_model x of
        Inl e \<Rightarrow> Inl e
      | Inr imgs \<Rightarrow> score_image cnn_model imgs)"

subsection \<open>The batched calls on shapes\<close>

text \<open>
  \<^verbatim>\<open>decode\<close> and \<^verbatim>\<open>score_image\<close> hand the whole batch to every PyTorch call, and
  each call accepts or refuses a tensor by its shape, the number of rows included. The
  definitions below follow the same calls in the same order on shapes alone (the list of
  the sizes of the dimensions). A tensor without elements is determined by its shape, so
  for a batch of zero rows the shapes are the whole computation.
\<close>

type_synonym shape = "nat list"

definition numel :: "shape \<Rightarrow> nat" where
  "numel s = prod_list s"

text \<open>A sequence of calls, each on the result of the one before; the first exception wins.\<close>

fun run_steps :: "(shape \<Rightarrow> error + shape) list \<Rightarrow> shape \<Rightarrow> error + shape" where
  "run_steps [] s = Inr s"
| "run_steps (f # fs) s = (case f s of Inl e \<Rightarrow> Inl e | Inr t \<Rightarrow> run_steps fs t)"

text \<open>
  \<^verbatim>\<open>F.relu\<close>, \<^verbatim>\<open>torch.sigmoid\<close>, \<^verbatim>\<open>torch.exp\<close> and the product of two tensors of
  one shape work entry by entry and keep the shape.
\<close>

definition elementwise :: "shape \<Rightarrow> error + shape" where
  "elementwise s = Inr s"

text \<open>
  A linear layer acts on the last dimension, which must be the width of its weight rows,
  and replaces it by the number of these rows; the dimensions before it are kept.
\<close>

definition F_linear_shape :: "linear \<Rightarrow> shape \<Rightarrow> error + shape" where
  "F_linear_shape l s =
     (case rev s of
        [] \<Rightarrow> Inl RuntimeError
      | w # before \<Rightarrow>
          if list_all (\<lambda>r. length r = w) (weight l)
          then Inr (rev before @ [length (weight l)])
          else Inl RuntimeError)"

text \<open>
  \<^verbatim>\<open>nn.Conv2d(c_in, c_out, k, stride)\<close> and \<^verbatim>\<open>F.max_pool2d(x, k, stride)\<close> on a
  batch of shape \<open>[n, c, h, w]\<close>, without padding: the channels must be \<open>c_in\<close>, the
  kernel must fit into the image, and the number \<open>n\<close> of images is kept. The script
  passes four-dimensional tensors only; another rank is refused here.
\<close>

definition conv2d_shape :: "nat \<Rightarrow> nat \<Rightarrow> nat \<Rightarrow> nat \<Rightarrow> shape \<Rightarrow> error + shape" where
  "conv2d_shape c_in c_out k stride s =
     (case s of
        [n, c, h, w] \<Rightarrow>
          if c = c_in \<and> k \<le> h \<and> k \<le> w
          then Inr [n, c_out, (h - k) div stride + 1, (w - k) div stride + 1]
          else Inl RuntimeError
      | _ \<Rightarrow> Inl RuntimeError)"

definition max_pool2d_shape :: "nat \<Rightarrow> nat \<Rightarrow> shape \<Rightarrow> error + shape" where
  "max_pool2d_shape k stride s =
     (case s of
        [n, c, h, w] \<Rightarrow>
          if k \<le> h \<and> k \<le> w
          then Inr [n, c, (h - k) div stride + 1, (w - k) div stride + 1]
          else Inl RuntimeError
      | _ \<Rightarrow> Inl RuntimeError)"

text \<open>
  \<^verbatim>\<open>t.view(sizes)\<close> with all sizes given needs as many elements as \<open>t\<close> has.
  \<^verbatim>\<open>t.view(-1, m)\<close> infers the first size as \<open>numel / m\<close>; it raises when \<open>m\<close> does
  not divide the number of elements, and when \<open>m = 0\<close> (the size is then ambiguous or
  impossible).
\<close>

definition view_shape :: "shape \<Rightarrow> shape \<Rightarrow> error + shape" where
  "view_shape sizes s = (if numel sizes = numel s then Inr sizes else Inl RuntimeError)"

definition view_infer_shape :: "nat \<Rightarrow> shape \<Rightarrow> error + shape" where
  "view_infer_shape m s =
     (if m \<noteq> 0 \<and> numel s mod m = 0 then Inr [numel s div m, m] else Inl RuntimeError)"

text \<open>\<^verbatim>\<open>F.log_softmax(x, dim=1)\<close> needs a dimension 1 and keeps the shape.\<close>

definition log_softmax_shape :: "shape \<Rightarrow> error + shape" where
  "log_softmax_shape s = (if 2 \<le> length s then Inr s else Inl RuntimeError)"

text \<open>
  \<^verbatim>\<open>v.expand(target)\<close> for a vector \<open>v\<close> of \<open>m\<close> entries: the last size of the target
  must be \<open>m\<close>, unless \<open>m = 1\<close>; the sizes before it are free.
\<close>

definition expand_shape :: "nat \<Rightarrow> shape \<Rightarrow> error + shape" where
  "expand_shape m target =
     (case rev target of
        [] \<Rightarrow> Inl RuntimeError
      | w # before \<Rightarrow> if w = m \<or> m = 1 then Inr target else Inl RuntimeError)"

text \<open>\<^verbatim>\<open>t.sum(dim=1)\<close> removes dimension 1.\<close>

definition sum_dim1_shape :: "shape \<Rightarrow> error + shape" where
  "sum_dim1_shape s = (case s of n # k # rest \<Rightarrow> Inr (n # rest) | _ \<Rightarrow> Inl RuntimeError)"

text \<open>\<^verbatim>\<open>VAE.decode\<close> and \<^verbatim>\<open>decode\<close> (lines 111 to 113 and 161 to 164).\<close>

definition VAE_decode_shape :: "VAE \<Rightarrow> shape \<Rightarrow> error + shape" where
  "VAE_decode_shape vae =
     run_steps [F_linear_shape (fc3 vae), elementwise, F_linear_shape (fc4 vae), elementwise]"

definition decode_shape :: "VAE \<Rightarrow> shape \<Rightarrow> error + shape" where
  "decode_shape vae_model x =
     (case x of
        [] \<Rightarrow> Inl RuntimeError
      | n # _ \<Rightarrow> run_steps [VAE_decode_shape vae_model, view_shape [n, 1, 28, 28]] x)"

text \<open>\<^verbatim>\<open>Net.forward\<close> (lines 44 to 52) and \<^verbatim>\<open>score_image\<close> (lines 143 to 153).\<close>

definition Net_forward_shape :: "Net \<Rightarrow> shape \<Rightarrow> error + shape" where
  "Net_forward_shape net =
     run_steps
       [conv2d_shape 1 20 5 1, elementwise,
        max_pool2d_shape 2 2,
        conv2d_shape 20 50 5 1, elementwise,
        max_pool2d_shape 2 2,
        view_infer_shape (4 * 4 * 50),
        F_linear_shape (fc1 net), elementwise,
        F_linear_shape (fc2 net),
        log_softmax_shape]"

definition score_image_shape :: "Net \<Rightarrow> shape \<Rightarrow> error + shape" where
  "score_image_shape cnn_model x =
     (case run_steps [Net_forward_shape cnn_model, elementwise] x of
        Inl e \<Rightarrow> Inl e
      | Inr probs \<Rightarrow>
          (case expand_shape 10 probs of
             Inl e \<Rightarrow> Inl e
           | Inr scores \<Rightarrow> run_steps [elementwise, sum_dim1_shape] probs))"

definition objective_shape :: "Net \<Rightarrow> VAE \<Rightarrow> shape \<Rightarrow> error + shape" where
  "objective_shape cnn_model vae_model x =
     run_steps [decode_shape vae_model, score_image_shape cnn_model] x"

subsection \<open>Locating and loading the pretrained weights\<close>

text \<open>
  What the script reads from its process: \<^verbatim>\<open>os.environ\<close>, \<^verbatim>\<open>os.getcwd()\<close>
  and the files \<^verbatim>\<open>torch.load\<close> can open. A file either unpickles to a state
  dictionary or does not.
\<close>

datatype state_dict_file = NetWeights Net | VAEWeights VAE

datatype disk_file = Pickled state_dict_file | Garbage

record os_env =
  environ :: "string \<rightharpoonup> string"
  getcwd :: string
  files :: "string \<rightharpoonup> disk_file"

text \<open>\<^verbatim>\<open>os.path.basename\<close> and \<^verbatim>\<open>os.path.join\<close> (POSIX, two arguments).\<close>

definition basename :: "string \<Rightarrow> string" where
  "basename p = rev (takeWhile (\<lambda>c. c \<noteq> CHR ''/'') (rev p))"

definition path_join :: "string \<Rightarrow> string \<Rightarrow> string" where
  "path_join a b =
     (if b \<noteq> [] \<and> hd b = CHR ''/'' then b
      else if a = [] \<or> last a = CHR ''/'' then a @ b
      else a @ ''/'' @ b)"

definition get_pretrained_dir :: "os_env \<Rightarrow> error + string" where
  "get_pretrained_dir os =
     (case environ os ''PRETRAINED_LOCATION'' of
        Some loc \<Rightarrow> Inr loc
      | None \<Rightarrow>
          (let cwd = getcwd os; folder = basename cwd in
           if folder = ''botorch'' then Inr (path_join cwd ''tutorials/pretrained_models/'')
           else if folder = ''tutorials'' then Inr (path_join cwd ''pretrained_models/'')
           else Inl FileNotFoundError))"

text \<open>
  \<^verbatim>\<open>torch.load(path, weights_only=True)\<close>: FileNotFoundError when the file is
  absent, UnpicklingError when it is not a pickled state dictionary.
\<close>

definition torch_load :: "os_env \<Rightarrow> string \<Rightarrow> error + state_dict_file" where
  "torch_load os path =
     (case files os path of
        None \<Rightarrow> Inl FileNotFoundError
      | Some Garbage \<Rightarrow> Inl UnpicklingError
      | Some (Pickled sd) \<Rightarrow> Inr sd)"

text \<open>
  \<^verbatim>\<open>load_state_dict\<close> raises a RuntimeError when the keys are those of the other
  network or a tensor has not the shape the constructor gave the layer.
\<close>

definition has_shape :: "linear \<Rightarrow> nat \<Rightarrow> nat \<Rightarrow> bool" where
  "has_shape l out_features in_features \<longleftrightarrow>
     length (weight l) = out_features \<and>
     list_all (\<lambda>w. length w = in_features) (weight l) \<and>
     length (bias l) = out_features"

definition Net_load_state_dict :: "state_dict_file \<Rightarrow> error + Net" where
  "Net_load_state_dict sd =
     (case sd of
        NetWeights net \<Rightarrow>
          if has_shape (fc1 net) 500 (4 * 4 * 50) \<and> has_shape (fc2 net) 10 500
          then Inr net else Inl RuntimeError
      | VAEWeights _ \<Rightarrow> Inl RuntimeError)"

definition VAE_load_state_dict :: "state_dict_file \<Rightarrow> error + VAE" where
  "VAE_load_state_dict sd =
     (case sd of
        VAEWeights vae \<Rightarrow>
          if has_shape (fc3 vae) 400 20 \<and> has_shape (fc4 vae) 784 400
          then Inr vae else Inl RuntimeError
      | NetWeights _ \<Rightarrow> Inl RuntimeError)"

text \<open>Lines 82 to 85: the classifier; lines 120 to 123: the VAE.\<close>

definition load_cnn_model :: "os_env \<Rightarrow> error + Net" where
  "load_cnn_model os =
     (case get_pretrained_dir os of
        Inl e \<Rightarrow> Inl e
      | Inr dir \<Rightarrow>
          (case torch_load os (path_join dir ''mnist_cnn.pt'') of
             Inl e \<Rightarrow> Inl e
           | Inr cnn_state_dict \<Rightarrow> Net_load_state_dict cnn_state_dict))"

definition load_vae_model :: "os_env \<Rightarrow> error + VAE" where
  "load_vae_model os =
     (case get_pretrained_dir os of
        Inl e \<Rightarrow> Inl e
      | Inr dir \<Rightarrow>
          (case torch_load os (path_join dir ''mnist_vae.pt'') of
             Inl e \<Rightarrow> Inl e
           | Inr vae_state_dict \<Rightarrow> VAE_load_state_dict vae_state_dict))"

subsection \<open>Configuration\<close>

text \<open>
  \<^verbatim>\<open>SMOKE_TEST = os.environ.get("SMOKE_TEST", False)\<close> is used only for its truth
  value: a string is true unless it is empty.
\<close>

definition SMOKE_TEST :: "os_env \<Rightarrow> bool" where
  "SMOKE_TEST os = (case environ os ''SMOKE_TEST'' of None \<Rightarrow> False | Some s \<Rightarrow> s \<noteq> [])"

record config =
  n_init :: nat
  BATCH_SIZE :: nat
  NUM_RESTARTS :: nat
  RAW_SAMPLES :: nat
  N_BATCH :: nat
  seed :: nat

definition script_config :: "bool \<Rightarrow> config" where
  "script_config smoke =
     \<lparr> n_init = 5,
       BATCH_SIZE = (if \<not> smoke then 3 else 2),
       NUM_RESTARTS = (if \<not> smoke then 10 else 2),
       RAW_SAMPLES = (if \<not> smoke then 256 else 4),
       N_BATCH = (if \<not> smoke then 25 else 3),
       seed = 1 \<rparr>"

definition d :: nat where
  "d = 20"

definition bounds :: "vec \<times> vec" where
  "bounds = (replicate d (- 6), replicate d 6)"

subsection \<open>The library the script calls\<close>

text \<open>
  The random number generator of PyTorch, the Gaussian-process fit and the optimiser of
  the acquisition function are called by the script and defined outside it. They are
  parameters of the model: \<open>'g\<close> is the state of the global generator, \<open>'m\<close> a fitted
  model and \<open>'s\<close> what \<^verbatim>\<open>model.state_dict()\<close> returns.
\<close>

text \<open>
  The arguments of \<^verbatim>\<open>qExpectedImprovement\<close>: the model, \<^verbatim>\<open>best_f\<close> and the
  optional Monte Carlo sampler (\<^verbatim>\<open>SobolQMCNormalSampler(sample_shape, seed)\<close>), whose
  default is \<^verbatim>\<open>None\<close>.
\<close>

record mc_sampler =
  sample_shape :: nat
  sampler_seed :: "nat option"

record 'm acquisition =
  acq_model :: 'm
  best_f :: real
  sampler :: "mc_sampler option"

definition qExpectedImprovement :: "'m \<Rightarrow> real \<Rightarrow> mc_sampler option \<Rightarrow> 'm acquisition" where
  "qExpectedImprovement model bf smp = \<lparr> acq_model = model, best_f = bf, sampler = smp \<rparr>"

record ('m, 's, 'g) library =
  manual_seed :: "nat \<Rightarrow> 'g"
  torch_rand :: "'g \<Rightarrow> nat \<Rightarrow> nat \<Rightarrow> tensor2 \<times> 'g"
  fit_gp :: "tensor2 \<Rightarrow> vec \<Rightarrow> 's option \<Rightarrow> error + 'm"
  state_dict_of :: "'m \<Rightarrow> 's"
  optimize_acqf ::
    "'m acquisition \<Rightarrow> vec \<times> vec \<Rightarrow> nat \<Rightarrow> nat \<Rightarrow> nat \<Rightarrow> 'g \<Rightarrow> (error + tensor2) \<times> 'g"

text \<open>
  Modelled from the spec: \<^verbatim>\<open>unnormalize\<close> and \<^verbatim>\<open>normalize\<close> of
  \<^verbatim>\<open>botorch.utils.transforms\<close> are imported by the script and their code is not
  part of it. The spec calls them the affine transform relating the unit cube
  \<open>[0,1]^d\<close> to the box \<open>[low, high]^d\<close>. \<open>affine_rows f\<close> applies \<open>f v low high\<close>
  to every coordinate \<open>v\<close> of every row with the bounds of that coordinate; a row whose
  width is not that of the bounds cannot be combined with them and raises.
\<close>

definition affine_rows ::
  "(real \<Rightarrow> real \<Rightarrow> real \<Rightarrow> real) \<Rightarrow> tensor2 \<Rightarrow> vec \<times> vec \<Rightarrow> error + tensor2" where
  "affine_rows f X bnds =
     (if length (snd bnds) = length (fst bnds) \<and>
         list_all (\<lambda>x. length x = length (fst bnds)) X
      then Inr (map (\<lambda>x. map (\<lambda>(v, lo, hi). f v lo hi) (zip x (zip (fst bnds) (snd bnds)))) X)
      else Inl RuntimeError)"

text \<open>
  Modelled from the spec: \<^verbatim>\<open>unnormalize(X, bounds)\<close>, the affine map taking the
  unit cube onto the box, \<open>v * (high - low) + low\<close> in every coordinate.
\<close>

definition unnormalize :: "tensor2 \<Rightarrow> vec \<times> vec \<Rightarrow> error + tensor2" where
  "unnormalize X bnds = affine_rows (\<lambda>v lo hi. v * (hi - lo) + lo) X bnds"

text \<open>
  Modelled from the spec: \<^verbatim>\<open>normalize(X, bounds)\<close>, the inverse map,
  \<open>(v - low) / (high - low)\<close> in every coordinate.
\<close>

definition normalize :: "tensor2 \<Rightarrow> vec \<times> vec \<Rightarrow> error + tensor2" where
  "normalize X bnds = affine_rows (\<lambda>v lo hi. (v - lo) / (hi - lo)) X bnds"

text \<open>
  \<^verbatim>\<open>torch.cat((a, b))\<close> along dimension 0 raises when the rows of \<open>b\<close> have not the
  width of those of \<open>a\<close>.
\<close>

definition torch_cat :: "tensor2 \<Rightarrow> tensor2 \<Rightarrow> error + tensor2" where
  "torch_cat a b =
     (case a of
        [] \<Rightarrow> Inr b
      | r # _ \<Rightarrow>
          if list_all (\<lambda>r'. length r' = length r) b then Inr (a @ b)
          else Inl RuntimeError)"

subsection \<open>Initial data, model fit and one optimisation step\<close>

text \<open>
  \<^verbatim>\<open>gen_initial_data(n)\<close> returns \<open>train_x\<close>, \<open>train_obj\<close> (the column of scores,
  kept as a vector) and the best observed value, with the generator's new state.
\<close>

definition gen_initial_data ::
  "('m, 's, 'g) library \<Rightarrow> Net \<Rightarrow> VAE \<Rightarrow> nat \<Rightarrow> 'g \<Rightarrow> error + (tensor2 \<times> vec \<times> real \<times> 'g)" where
  "gen_initial_data lib cnn_model vae_model n g =
     (case torch_rand lib g n d of (u, g') \<Rightarrow>
      (case unnormalize u bounds of
         Inl e \<Rightarrow> Inl e
       | Inr train_x \<Rightarrow>
           (case objective cnn_model vae_model train_x of
              Inl e \<Rightarrow> Inl e
            | Inr train_obj \<Rightarrow>
                (case tensor_max train_obj of
                   Inl e \<Rightarrow> Inl e
                 | Inr best_observed_value \<Rightarrow>
                     Inr (train_x, train_obj, best_observed_value, g')))))"

text \<open>
  \<^verbatim>\<open>get_fitted_model\<close>: the inputs are normalised, and building the
  \<^verbatim>\<open>SingleTaskGP\<close>, loading the previous state dictionary and
  \<^verbatim>\<open>fit_gpytorch_mll\<close> are the library's \<open>fit_gp\<close>.
\<close>

definition get_fitted_model ::
  "('m, 's, 'g) library \<Rightarrow> tensor2 \<Rightarrow> vec \<Rightarrow> 's option \<Rightarrow> error + 'm" where
  "get_fitted_model lib train_x train_obj state_dict =
     (case normalize train_x bounds of
        Inl e \<Rightarrow> Inl e
      | Inr X \<Rightarrow> fit_gp lib X train_obj state_dict)"

definition optimize_acqf_and_get_observation ::
  "('m, 's, 'g) library \<Rightarrow> Net \<Rightarrow> VAE \<Rightarrow> config \<Rightarrow> 'm acquisition \<Rightarrow> 'g \<Rightarrow>
     error + (tensor2 \<times> vec \<times> 'g)" where
  "optimize_acqf_and_get_observation lib cnn_model vae_model cfg acq_func g =
     (case optimize_acqf lib acq_func (replicate d 0, replicate d 1)
             (BATCH_SIZE cfg) (NUM_RESTARTS cfg) (RAW_SAMPLES cfg) g of
        (Inl e, g') \<Rightarrow> Inl e
      | (Inr candidates, g') \<Rightarrow>
          (case unnormalize candidates bounds of
             Inl e \<Rightarrow> Inl e
           | Inr new_x \<Rightarrow>
               (case objective cnn_model vae_model new_x of
                  Inl e \<Rightarrow> Inl e
                | Inr new_obj \<Rightarrow> Inr (new_x, new_obj, g'))))"

subsection \<open>The optimisation loop\<close>

text \<open>The variables the loop updates.\<close>

record 's run_state =
  train_x :: tensor2
  train_obj :: vec
  best_observed :: "real list"
  state_dict :: "'s option"

text \<open>
  The body of \<^verbatim>\<open>for iteration in range(N_BATCH)\<close>. The acquisition function is built
  from the model and \<^verbatim>\<open>train_obj.max()\<close> alone; no sampler is passed.
\<close>

definition bo_iteration ::
  "('m, 's, 'g) library \<Rightarrow> Net \<Rightarrow> VAE \<Rightarrow> config \<Rightarrow> 's run_state \<times> 'g \<Rightarrow>
     error + ('s run_state \<times> 'g)" where
  "bo_iteration lib cnn_model vae_model cfg s =
     (case s of (st, g) \<Rightarrow>
      (case get_fitted_model lib (train_x st) (train_obj st) (state_dict st) of
         Inl e \<Rightarrow> Inl e
       | Inr model \<Rightarrow>
      (case tensor_max (train_obj st) of
         Inl e \<Rightarrow> Inl e
       | Inr bf \<Rightarrow>
      (case optimize_acqf_and_get_observation lib cnn_model vae_model cfg
              (qExpectedImprovement model bf None) g of
         Inl e \<Rightarrow> Inl e
       | Inr (new_x, new_obj, g') \<Rightarrow>
      (case torch_cat (train_x st) new_x of
         Inl e \<Rightarrow> Inl e
       | Inr train_x' \<Rightarrow>
      (case tensor_max (train_obj st @ new_obj) of
         Inl e \<Rightarrow> Inl e
       | Inr best_value \<Rightarrow>
           Inr (\<lparr> train_x = train_x',
                  train_obj = train_obj st @ new_obj,
                  best_observed = best_observed st @ [best_value],
                  state_dict = Some (state_dict_of lib model) \<rparr>, g')))))))"

text \<open>
  \<open>k\<close> iterations of the loop. An exception ends the loop; the variables then keep the
  values they had when the failing iteration began.
\<close>

fun bo_iterate ::
  "('m, 's, 'g) library \<Rightarrow> Net \<Rightarrow> VAE \<Rightarrow> config \<Rightarrow> nat \<Rightarrow> 's run_state \<times> 'g \<Rightarrow>
     (error \<times> 's run_state) + ('s run_state \<times> 'g)" where
  "bo_iterate lib cnn_model vae_model cfg 0 s = Inr s"
| "bo_iterate lib cnn_model vae_model cfg (Suc k) s =
     (case bo_iteration lib cnn_model vae_model cfg s of
        Inl e \<Rightarrow> Inl (e, fst s)
      | Inr s' \<Rightarrow> bo_iterate lib cnn_model vae_model cfg k s')"

text \<open>The variables when the loop has ended, normally or by an exception.\<close>

definition state_of :: "(error \<times> 's run_state) + ('s run_state \<times> 'g) \<Rightarrow> 's run_state" where
  "state_of r = (case r of Inl (e, st) \<Rightarrow> st | Inr (st, g) \<Rightarrow> st)"

text \<open>
  How a run ends: all iterations done, or an exception. An exception before the initial
  data exist leaves no dataset and at most the empty history; a later one leaves those
  of the last completed iteration.
\<close>

datatype 's outcome = Completed "'s run_state" | Aborted error "'s run_state option"

text \<open>The state after the cell that seeds the generator and draws the initial batch.\<close>

definition initial_state :: "tensor2 \<Rightarrow> vec \<Rightarrow> real \<Rightarrow> 's run_state" where
  "initial_state tx tobj best_value =
     \<lparr> train_x = tx, train_obj = tobj, best_observed = [] @ [best_value],
       state_dict = None \<rparr>"

definition bo_run :: "('m, 's, 'g) library \<Rightarrow> Net \<Rightarrow> VAE \<Rightarrow> config \<Rightarrow> 's outcome" where
  "bo_run lib cnn_model vae_model cfg =
     (case gen_initial_data lib cnn_model vae_model (n_init cfg) (manual_seed lib (seed cfg)) of
        Inl e \<Rightarrow> Aborted e None
      | Inr (tx, tobj, best_value, g) \<Rightarrow>
          (case bo_iterate lib cnn_model vae_model cfg (N_BATCH cfg)
                  (initial_state tx tobj best_value, g) of
             Inl (e, st) \<Rightarrow> Aborted e (Some st)
           | Inr (st, g') \<Rightarrow> Completed st))"

text \<open>The whole script: load both networks, then run with the script's constants.\<close>

definition script :: "('m, 's, 'g) library \<Rightarrow> os_env \<Rightarrow> 's outcome" where
  "script lib os =
     (case load_cnn_model os of
        Inl e \<Rightarrow> Aborted e None
      | Inr cnn_model \<Rightarrow>
          (case load_vae_model os of
             Inl e \<Rightarrow> Aborted e None
           | Inr vae_model \<Rightarrow>
               bo_run lib cnn_model vae_model (script_config (SMOKE_TEST os))))"

text \<open>What the script relies on from the library.\<close>

definition in_box :: "vec \<times> vec \<Rightarrow> vec \<Rightarrow> bool" where
  "in_box bnds x \<longleftrightarrow>
     length x = length (fst bnds) \<and>
     list_all (\<lambda>(v, lo, hi). lo \<le> v \<and> v \<le> hi) (zip x (zip (fst bnds) (snd bnds)))"

definition rand_contract :: "('m, 's, 'g) library \<Rightarrow> bool" where
  "rand_contract lib \<longleftrightarrow>
     (\<forall>g n k. length (fst (torch_rand lib g n k)) = n \<and>
        list_all (\<lambda>row. length row = k \<and> list_all (\<lambda>v. 0 \<le> v \<and> v < 1) row)
          (fst (torch_rand lib g n k)))"

definition optimize_contract :: "('m, 's, 'g) library \<Rightarrow> bool" where
  "optimize_contract lib \<longleftrightarrow>
     (\<forall>acq bnds q nr rs g c.
        fst (optimize_acqf lib acq bnds q nr rs g) = Inr c \<longrightarrow>
        length c = q \<and> list_all (in_box bnds) c)"

subsection \<open>Concrete inputs\<close>

text \<open>A classifier output that puts all probability on one of the ten labels.\<close>

definition one_hot :: "nat \<Rightarrow> vec" where
  "one_hot label = (replicate 10 0)[label := 1]"

text \<open>
  A small classifier and decoder on which the script's functions can be evaluated: all
  weights are absent or zero, so every image gets the ten logits \<open>0\<close> and every latent
  vector decodes to the image with all pixels \<open>1/2\<close>.
\<close>

definition flat_net :: Net where
  "flat_net =
     \<lparr> conv_front = (\<lambda>x. []),
       fc1 = \<lparr> weight = [], bias = [] \<rparr>,
       fc2 = \<lparr> weight = replicate 10 [], bias = replicate 10 0 \<rparr> \<rparr>"

definition flat_vae :: VAE where
  "flat_vae =
     \<lparr> fc3 = \<lparr> weight = [], bias = [] \<rparr>,
       fc4 = \<lparr> weight = replicate 784 [], bias = replicate 784 0 \<rparr> \<rparr>"

text \<open>The score of every image under \<open>flat_net\<close>: the mean of the ten label scores.\<close>

definition flat_score :: real where
  "flat_score = sum_list (map2 (*) (replicate 10 (1 / 10)) (map score (arange 10)))"

text \<open>
  A library whose generator has a single state, whose random numbers are all \<open>1/2\<close>,
  whose fit always succeeds and whose optimiser proposes the lower corner of its bounds
  \<open>q\<close> times (and fails on bounds that enclose nothing).
\<close>

definition corner_library :: "(unit, unit, unit) library" where
  "corner_library =
     \<lparr> manual_seed = (\<lambda>n. ()),
       torch_rand = (\<lambda>g n k. (replicate n (replicate k (1 / 2)), g)),
       fit_gp = (\<lambda>X Y sd. Inr ()),
       state_dict_of = (\<lambda>m. ()),
       optimize_acqf =
         (\<lambda>acq bnds q nr rs g.
            (if in_box bnds (fst bnds) then Inr (replicate q (fst bnds))
             else Inl LibraryError, g)) \<rparr>"

definition small_config :: config where
  "small_config =
     \<lparr> n_init = 2, BATCH_SIZE = 1, NUM_RESTARTS = 1, RAW_SAMPLES = 1, N_BATCH = 1, seed = 1 \<rparr>"

text \<open>
  Two processes without any weight file: one with no environment variable, started in
  a directory that is not of the repository, and one pointed at a directory.
\<close>

definition bare_os :: os_env where
  "bare_os = \<lparr> environ = Map.empty, getcwd = ''/home/user'', files = Map.empty \<rparr>"

definition located_os :: os_env where
  "located_os =
     \<lparr> environ = [''PRETRAINED_LOCATION'' \<mapsto> ''/models''], getcwd = ''/home/user'',
       files = Map.empty \<rparr>"

text \<open>
  The library \<open>corner_library\<close> with an optimiser that refuses an acquisition function
  built without a sampler.
\<close>

definition sampler_required_library :: "(unit, unit, unit) library" where
  "sampler_required_library =
     corner_library \<lparr> optimize_acqf :=
       (\<lambda>acq bnds q nr rs g.
          (case sampler acq of
             None \<Rightarrow> (Inl LibraryError, g)
           | Some smp \<Rightarrow> optimize_acqf corner_library acq bnds q nr rs g)) \<rparr>"

text \<open>
  Networks with all weights zero in the shapes of the constructors, and a process
  whose directory of pretrained models holds them.
\<close>

definition zero_net :: Net where
  "zero_net =
     \<lparr> conv_front = (\<lambda>x. replicate 800 0),
       fc1 = \<lparr> weight = replicate 500 (replicate 800 0), bias = replicate 500 0 \<rparr>,
       fc2 = \<lparr> weight = replicate 10 (replicate 500 0), bias = replicate 10 0 \<rparr> \<rparr>"

definition zero_vae :: VAE where
  "zero_vae =
     \<lparr> fc3 = \<lparr> weight = replicate 400 (replicate 20 0), bias = replicate 400 0 \<rparr>,
       fc4 = \<lparr> weight = replicate 784 (replicate 400 0), bias = replicate 784 0 \<rparr> \<rparr>"

definition stocked_os :: os_env where
  "stocked_os =
     \<lparr> environ = [''PRETRAINED_LOCATION'' \<mapsto> ''/models''], getcwd = ''/home/user'',
       files = [''/models/mnist_cnn.pt'' \<mapsto> Pickled (NetWeights zero_net),
                ''/models/mnist_vae.pt'' \<mapsto> Pickled (VAEWeights zero_vae)] \<rparr>"

subsection \<open>The loop invariant\<close>

text \<open>
  What every iteration keeps true of the score column and the history: neither is empty,
  the history is in ascending order and its last entry is the largest score.
\<close>

definition history_ok :: "'s run_state \<Rightarrow> bool" where
  "history_ok st \<longleftrightarrow>
     train_obj st \<noteq> [] \<and> best_observed st \<noteq> [] \<and> sorted (best_observed st) \<and>
     last (best_observed st) = Max (set (train_obj st))"

text \<open>
  What every iteration keeps true of the dataset: its latent vectors lie in the box
  and its scores are the objective at these vectors.
\<close>

definition dataset_ok :: "Net \<Rightarrow> VAE \<Rightarrow> 's run_state \<Rightarrow> bool" where
  "dataset_ok cnn_model vae_model st \<longleftrightarrow>
     list_all (in_box bounds) (train_x st) \<and>
     objective cnn_model vae_model (train_x st) = Inr (train_obj st)"

text \<open>Scores that are positive and at most \<open>1\<close>, and the corresponding loop invariant.\<close>

definition unit_scores :: "real list \<Rightarrow> bool" where
  "unit_scores ss \<longleftrightarrow> list_all (\<lambda>s. 0 < s \<and> s \<le> 1) ss"

definition scores_ok :: "'s run_state \<Rightarrow> bool" where
  "scores_ok st \<longleftrightarrow>
     train_obj st \<noteq> [] \<and> unit_scores (train_obj st) \<and> unit_scores (best_observed st)"

section \<open>Properties of the objective\<close>

lemma map_rows_Inr_length: "map_rows f xs = Inr ys \<Longrightarrow> length ys = length xs"
  by (induction xs arbitrary: ys) (auto split: sum.splits)

lemma map_rows_Inr_all:
  "map_rows f xs = Inr ys \<Longrightarrow> (\<And>x y. f x = Inr y \<Longrightarrow> P y) \<Longrightarrow> list_all P ys"
  by (induction xs arbitrary: ys) (auto split: sum.splits)

lemma map_rows_Inr_map:
  "map_rows f xs = Inr ys \<Longrightarrow> list_all2 (\<lambda>x y. f x = Inr y) xs ys"
  by (induction xs arbitrary: ys) (auto split: sum.splits)

lemma sum_list_exp_nonneg: "0 \<le> sum_list (map exp (xs :: real list))"
  by (induction xs) simp_all

lemma sum_list_exp_pos: "xs \<noteq> [] \<Longrightarrow> 0 < sum_list (map exp (xs :: real list))"
  using sum_list_exp_nonneg by (cases xs) (simp_all add: add_pos_nonneg)

lemma sum_list_divide_const:
  "sum_list (map (\<lambda>v. f v / c) xs) = sum_list (map f xs) / (c :: real)"
  by (induction xs) (simp_all add: add_divide_distrib)

lemma exp_log_softmax:
  assumes "y \<noteq> []"
  shows "map exp (log_softmax y) = map (\<lambda>v. exp v / sum_list (map exp y)) y"
  using sum_list_exp_pos [OF assms] by (simp add: log_softmax_def exp_diff)

lemma softmax_sums_to_one:
  assumes "y \<noteq> []"
  shows "sum_list (map exp (log_softmax y)) = 1"
proof -
  let ?S = "sum_list (map exp y)"
  have pos: "0 < ?S" by (rule sum_list_exp_pos [OF assms])
  have "sum_list (map (\<lambda>v. exp v / ?S) y) = sum_list (map exp y) / ?S"
    by (rule sum_list_divide_const)
  with pos show ?thesis by (simp add: exp_log_softmax [OF assms])
qed

lemma softmax_positive: "list_all (\<lambda>p. 0 < p) (map exp (log_softmax y))"
  by (simp add: list_all_iff)

lemma score_range: "0 < score y \<and> score y \<le> 1"
  by (simp add: score_def)

lemma weighted_sum_bounds:
  fixes p s :: "real list"
  assumes "length p = length s" "p \<noteq> []"
    and "list_all (\<lambda>x. 0 < x) p" "list_all (\<lambda>x. 0 < x \<and> x \<le> 1) s"
  shows "0 < sum_list (map2 (*) p s) \<and> sum_list (map2 (*) p s) \<le> sum_list p"
  using assms
proof (induction p s rule: list_induct2)
  case Nil
  then show ?case by simp
next
  case (Cons x xs y ys)
  have xy: "0 < x * y" "x * y \<le> x" using Cons.prems by (simp_all add: mult_left_le)
  show ?case
  proof (cases "xs = []")
    case True
    with Cons.hyps xy show ?thesis by simp
  next
    case False
    with Cons have "0 < sum_list (map2 (*) xs ys) \<and> sum_list (map2 (*) xs ys) \<le> sum_list xs"
      by simp
    with xy show ?thesis by simp
  qed
qed

lemma expected_score_range:
  assumes "expected_score (map exp (log_softmax y)) = Inr v"
  shows "0 < v \<and> v \<le> 1"
proof -
  let ?p = "map exp (log_softmax y)"
  from assms have len: "length ?p = 10"
    and v: "v = sum_list (map2 (*) ?p (map score (arange 10)))"
    by (auto simp: expected_score_def split: if_splits)
  from len have ne: "y \<noteq> []" by (auto simp: log_softmax_def)
  have "length ?p = length (map score (arange 10))" using len by (simp add: arange_def)
  moreover have "?p \<noteq> []" using len by auto
  moreover have "list_all (\<lambda>x. 0 < x \<and> x \<le> 1) (map score (arange 10))"
    by (simp add: list_all_iff score_range)
  ultimately have "0 < sum_list (map2 (*) ?p (map score (arange 10))) \<and>
      sum_list (map2 (*) ?p (map score (arange 10))) \<le> sum_list ?p"
    using softmax_positive [of y] by (intro weighted_sum_bounds)
  with v softmax_sums_to_one [OF ne] show ?thesis by simp
qed

lemma score_image_row_range:
  "score_image_row cnn x = Inr v \<Longrightarrow> 0 < v \<and> v \<le> 1"
  by (auto simp: score_image_row_def Net_forward_def split: sum.splits
      dest: expected_score_range)

lemma score_image_range:
  "score_image cnn xs = Inr ss \<Longrightarrow> list_all (\<lambda>v. 0 < v \<and> v \<le> 1) ss"
  unfolding score_image_def
  by (erule map_rows_Inr_all) (rule score_image_row_range)

lemma objective_range:
  "objective cnn vae x = Inr ss \<Longrightarrow> list_all (\<lambda>v. 0 < v \<and> v \<le> 1) ss"
  by (auto simp: objective_def split: sum.splits dest: score_image_range)

lemma objective_length:
  "objective cnn vae x = Inr ss \<Longrightarrow> length ss = length x"
  by (auto simp: objective_def decode_def score_image_def split: sum.splits if_splits
      dest!: map_rows_Inr_length)

section \<open>Properties of the loop\<close>

lemma map_rows_append:
  "map_rows f xs = Inr ys \<Longrightarrow> map_rows f xs' = Inr ys' \<Longrightarrow>
   map_rows f (xs @ xs') = Inr (ys @ ys')"
  by (induction xs arbitrary: ys) (auto split: sum.splits)

lemma decode_append:
  "decode vae xs = Inr ys \<Longrightarrow> decode vae xs' = Inr ys' \<Longrightarrow>
   decode vae (xs @ xs') = Inr (ys @ ys')"
  by (auto simp: decode_def map_rows_append split: sum.splits if_splits)

lemma objective_append:
  "objective cnn vae xs = Inr ys \<Longrightarrow> objective cnn vae xs' = Inr ys' \<Longrightarrow>
   objective cnn vae (xs @ xs') = Inr (ys @ ys')"
  by (auto simp: objective_def score_image_def decode_append map_rows_append
      split: sum.splits)

lemma tensor_max_Inr:
  assumes "tensor_max t = Inr m"
  shows "t \<noteq> [] \<and> m = Max (set t)"
proof (cases t)
  case Nil
  with assms show ?thesis by (simp add: tensor_max_def)
next
  case (Cons x xs)
  with assms have "m = fold max xs x" by (simp add: tensor_max_def)
  then have "m = Max (set (x # xs))" by (simp only: Max.set_eq_fold)
  with Cons show ?thesis by simp
qed

lemma torch_cat_Inr: "torch_cat a b = Inr c \<Longrightarrow> c = a @ b"
  by (auto simp: torch_cat_def split: list.splits if_splits)

lemma gen_initial_data_Inr:
  assumes "gen_initial_data lib cnn vae n g = Inr (tx, tobj, bv, g')"
  shows "unnormalize (fst (torch_rand lib g n d)) bounds = Inr tx"
    and "objective cnn vae tx = Inr tobj"
    and "tobj \<noteq> []" and "bv = Max (set tobj)"
  using assms
  by (auto simp: gen_initial_data_def split: prod.splits sum.splits dest: tensor_max_Inr)

lemma bo_iteration_Inr:
  assumes "bo_iteration lib cnn vae cfg (st, g) = Inr (st', g')"
  shows "\<exists>model bf c new_x new_obj.
      fst (optimize_acqf lib (qExpectedImprovement model bf None) (replicate d 0, replicate d 1)
            (BATCH_SIZE cfg) (NUM_RESTARTS cfg) (RAW_SAMPLES cfg) g) = Inr c \<and>
      unnormalize c bounds = Inr new_x \<and>
      objective cnn vae new_x = Inr new_obj \<and>
      train_obj st \<noteq> [] \<and>
      train_x st' = train_x st @ new_x \<and>
      train_obj st' = train_obj st @ new_obj \<and>
      best_observed st' = best_observed st @ [Max (set (train_obj st @ new_obj))]"
proof -
  from assms obtain model bf new_x new_obj tx' bv where
    bf: "tensor_max (train_obj st) = Inr bf"
    and opt: "optimize_acqf_and_get_observation lib cnn vae cfg
        (qExpectedImprovement model bf None) g = Inr (new_x, new_obj, g')"
    and cat: "torch_cat (train_x st) new_x = Inr tx'"
    and bv: "tensor_max (train_obj st @ new_obj) = Inr bv"
    and st': "st' = \<lparr> train_x = tx', train_obj = train_obj st @ new_obj,
        best_observed = best_observed st @ [bv],
        state_dict = Some (state_dict_of lib model) \<rparr>"
    by (auto simp: bo_iteration_def split: sum.splits prod.splits)
  from opt obtain c where
    c: "fst (optimize_acqf lib (qExpectedImprovement model bf None) (replicate d 0, replicate d 1)
            (BATCH_SIZE cfg) (NUM_RESTARTS cfg) (RAW_SAMPLES cfg) g) = Inr c"
    and un: "unnormalize c bounds = Inr new_x"
    and obj: "objective cnn vae new_x = Inr new_obj"
    by (auto simp: optimize_acqf_and_get_observation_def split: sum.splits prod.splits)
  from bf have ne: "train_obj st \<noteq> []" by (rule tensor_max_Inr [THEN conjunct1])
  from bv have "bv = Max (set (train_obj st @ new_obj))" by (rule tensor_max_Inr [THEN conjunct2])
  with st' torch_cat_Inr [OF cat] c un obj ne show ?thesis by auto
qed


lemma bo_iterate_invariant:
  assumes step: "\<And>st g st' g'. I st \<Longrightarrow>
      bo_iteration lib cnn vae cfg (st, g) = Inr (st', g') \<Longrightarrow> I st'"
    and init: "I st"
  shows "(\<forall>st' g'. bo_iterate lib cnn vae cfg k (st, g) = Inr (st', g') \<longrightarrow> I st') \<and>
         (\<forall>e st'. bo_iterate lib cnn vae cfg k (st, g) = Inl (e, st') \<longrightarrow> I st')"
  using init
proof (induction k arbitrary: st g)
  case 0
  then show ?case by simp
next
  case (Suc k)
  show ?case
  proof (cases "bo_iteration lib cnn vae cfg (st, g)")
    case (Inl e)
    with Suc.prems show ?thesis by simp
  next
    case (Inr s')
    obtain st1 g1 where s': "s' = (st1, g1)" by (cases s')
    from step [OF Suc.prems] Inr s' have "I st1" by simp
    from Suc.IH [OF this, of g1] Inr s' show ?thesis by simp
  qed
qed

lemma bo_iterate_history_length:
  "bo_iterate lib cnn vae cfg k (st, g) = Inr (st', g') \<Longrightarrow>
   length (best_observed st') = length (best_observed st) + k"
proof (induction k arbitrary: st g)
  case 0
  then show ?case by simp
next
  case (Suc k)
  from Suc.prems obtain st1 g1 where
    one: "bo_iteration lib cnn vae cfg (st, g) = Inr (st1, g1)"
    and rest: "bo_iterate lib cnn vae cfg k (st1, g1) = Inr (st', g')"
    by (auto split: sum.splits)
  from bo_iteration_Inr [OF one] have "length (best_observed st1) = Suc (length (best_observed st))"
    by auto
  with Suc.IH [OF rest] show ?case by simp
qed


text \<open>A run is the initial batch followed by \<open>N_BATCH\<close> iterations.\<close>

lemma bo_run_state:
  assumes "bo_run lib cnn vae cfg = Completed st \<or> bo_run lib cnn vae cfg = Aborted e (Some st)"
  shows "\<exists>tx tobj bv g.
      gen_initial_data lib cnn vae (n_init cfg) (manual_seed lib (seed cfg)) = Inr (tx, tobj, bv, g) \<and>
      st = state_of (bo_iterate lib cnn vae cfg (N_BATCH cfg) (initial_state tx tobj bv, g))"
proof (cases "gen_initial_data lib cnn vae (n_init cfg) (manual_seed lib (seed cfg))")
  case (Inl e')
  with assms show ?thesis by (simp add: bo_run_def)
next
  case (Inr a)
  obtain tx tobj bv g where a: "a = (tx, tobj, bv, g)" by (cases a)
  let ?r = "bo_iterate lib cnn vae cfg (N_BATCH cfg) (initial_state tx tobj bv, g)"
  from assms Inr a have "st = state_of ?r"
    by (cases ?r) (auto simp: bo_run_def state_of_def split: prod.splits)
  with Inr a show ?thesis by blast
qed

lemma sorted_le_last: "sorted xs \<Longrightarrow> x \<in> set xs \<Longrightarrow> x \<le> last (xs :: real list)"
  by (induction xs) auto

lemma history_ok_initial:
  assumes "gen_initial_data lib cnn vae n g = Inr (tx, tobj, bv, g')"
  shows "history_ok (initial_state tx tobj bv)"
  using gen_initial_data_Inr(3,4) [OF assms]
  by (simp add: history_ok_def initial_state_def)

lemma history_ok_step:
  assumes ok: "history_ok st"
    and one: "bo_iteration lib cnn vae cfg (st, g) = Inr (st', g')"
  shows "history_ok st'"
proof -
  from bo_iteration_Inr [OF one] obtain new_obj where
    tobj: "train_obj st' = train_obj st @ new_obj"
    and bo: "best_observed st' = best_observed st @ [Max (set (train_obj st @ new_obj))]"
    by blast
  let ?M = "Max (set (train_obj st @ new_obj))"
  from ok have ne: "train_obj st \<noteq> []" and bne: "best_observed st \<noteq> []"
    and srt: "sorted (best_observed st)"
    and lst: "last (best_observed st) = Max (set (train_obj st))"
    by (simp_all add: history_ok_def)
  have "Max (set (train_obj st)) \<le> ?M"
    using ne by (intro Max_mono) auto
  with lst have "last (best_observed st) \<le> ?M" by simp
  moreover have "x \<le> last (best_observed st)" if "x \<in> set (best_observed st)" for x
    using srt that by (rule sorted_le_last)
  ultimately have "\<forall>x\<in>set (best_observed st). x \<le> ?M" by force
  with srt have "sorted (best_observed st')" by (simp add: bo sorted_append)
  with ne tobj bo show ?thesis by (simp add: history_ok_def)
qed

lemma history_ok_run:
  assumes "gen_initial_data lib cnn vae n g0 = Inr (tx, tobj, bv, g1)"
  shows "history_ok (state_of (bo_iterate lib cnn vae cfg k (initial_state tx tobj bv, g1)))"
proof -
  let ?r = "bo_iterate lib cnn vae cfg k (initial_state tx tobj bv, g1)"
  note inv = bo_iterate_invariant [of history_ok lib cnn vae cfg "initial_state tx tobj bv" k g1,
      OF history_ok_step history_ok_initial [OF assms]]
  show ?thesis
  proof (cases ?r)
    case (Inl a)
    then show ?thesis using inv by (cases a) (simp add: state_of_def)
  next
    case (Inr b)
    then show ?thesis using inv by (cases b) (simp add: state_of_def)
  qed
qed

section \<open>Evaluating the script on concrete inputs\<close>

lemma flat_net_row: "score_image_row flat_net x = Inr flat_score"
proof -
  have fwd: "Net_forward flat_net x = Inr (log_softmax (replicate 10 0))"
    by (simp add: Net_forward_def flat_net_def F_linear_def relu_def dot_def
        map_replicate_const list_all_iff)
  have "map exp (log_softmax (replicate 10 0)) = replicate 10 (1 / 10)"
    by (simp add: log_softmax_def map_replicate_const sum_list_replicate exp_minus
        ln_div exp_diff inverse_eq_divide)
  with fwd show ?thesis
    by (simp add: score_image_row_def expected_score_def flat_score_def)
qed

lemma flat_vae_decode: "VAE_decode flat_vae z = Inr (replicate 784 (1 / 2))"
  by (simp add: VAE_decode_def flat_vae_def F_linear_def relu_def dot_def sigmoid_def
      map_replicate_const list_all_iff)

lemma flat_map_rows_const:
  "(\<And>x. f x = Inr c) \<Longrightarrow> map_rows f xs = Inr (replicate (length xs) c)"
  by (induction xs) simp_all

lemma flat_objective:
  "objective flat_net flat_vae xs = Inr (replicate (length xs) flat_score)"
  by (simp add: objective_def decode_def score_image_def
      flat_map_rows_const [of "VAE_decode flat_vae", OF flat_vae_decode]
      flat_map_rows_const [of "score_image_row flat_net", OF flat_net_row]
      list_all_iff)

lemma corner_rand_contract: "rand_contract corner_library"
  by (simp add: rand_contract_def corner_library_def list_all_iff)

lemma corner_optimize_contract: "optimize_contract corner_library"
  by (auto simp: optimize_contract_def corner_library_def list_all_iff split: if_splits)

lemma unnormalize_half:
  "unnormalize (replicate n (replicate d (1 / 2))) bounds = Inr (replicate n (replicate d 0))"
  by (simp add: unnormalize_def affine_rows_def bounds_def list_all_iff map_replicate_const)

lemma unnormalize_zero:
  "unnormalize (replicate n (replicate d 0)) bounds = Inr (replicate n (replicate d (- 6)))"
  by (simp add: unnormalize_def affine_rows_def bounds_def list_all_iff map_replicate_const)

lemma tensor_max_replicate: "0 < n \<Longrightarrow> tensor_max (replicate n c) = Inr c"
proof -
  assume "0 < n"
  then obtain m where n: "n = Suc m" by (cases n) auto
  have "fold max (replicate m c) c = c" by (induction m) simp_all
  with n show ?thesis by (simp add: tensor_max_def)
qed

lemma corner_gen_initial_data:
  "0 < n \<Longrightarrow> gen_initial_data corner_library flat_net flat_vae n g =
     Inr (replicate n (replicate d 0), replicate n flat_score, flat_score, ())"
  by (simp add: gen_initial_data_def corner_library_def unnormalize_half flat_objective
      tensor_max_replicate)

lemma corner_optimize:
  "optimize_acqf corner_library acq (replicate d 0, replicate d 1) q nr rs g =
     (Inr (replicate q (replicate d 0)), g)"
  by (simp add: corner_library_def in_box_def list_all_iff)

lemma corner_bo_iteration:
  assumes "train_x st = replicate n (replicate d 0)"
    and "train_obj st = replicate n flat_score" and "0 < n"
  shows "bo_iteration corner_library flat_net flat_vae cfg (st, g) =
     Inr (\<lparr> train_x = train_x st @ replicate (BATCH_SIZE cfg) (replicate d (- 6)),
            train_obj = train_obj st @ replicate (BATCH_SIZE cfg) flat_score,
            best_observed = best_observed st @ [flat_score],
            state_dict = Some () \<rparr>, g)"
proof -
  have fit: "get_fitted_model corner_library (train_x st) (train_obj st) (state_dict st) = Inr ()"
    by (simp add: get_fitted_model_def normalize_def affine_rows_def bounds_def assms(1)
        list_all_iff corner_library_def)
  have obs: "optimize_acqf_and_get_observation corner_library flat_net flat_vae cfg acq u =
      Inr (replicate (BATCH_SIZE cfg) (replicate d (- 6)),
           replicate (BATCH_SIZE cfg) flat_score, u)" for acq u
    by (simp add: optimize_acqf_and_get_observation_def corner_optimize unnormalize_zero
        flat_objective)
  have cat: "torch_cat (train_x st) (replicate (BATCH_SIZE cfg) (replicate d (- 6))) =
      Inr (train_x st @ replicate (BATCH_SIZE cfg) (replicate d (- 6)))"
  proof -
    from assms(3) obtain m where "n = Suc m" by (cases n) auto
    then show ?thesis by (simp add: torch_cat_def assms(1) list_all_iff)
  qed
  have "replicate n flat_score @ replicate (BATCH_SIZE cfg) flat_score =
      replicate (n + BATCH_SIZE cfg) flat_score"
    by (simp add: replicate_add)
  then have mx: "tensor_max (train_obj st @ replicate (BATCH_SIZE cfg) flat_score) = Inr flat_score"
    using assms by (simp add: tensor_max_replicate)
  have tm: "tensor_max (train_obj st) = Inr flat_score"
    using assms by (simp add: tensor_max_replicate)
  show ?thesis
    by (simp add: bo_iteration_def fit tm obs cat mx)
qed

lemma corner_run_one:
  "bo_iterate corner_library flat_net flat_vae small_config 1
     (initial_state (replicate 2 (replicate d 0)) (replicate 2 flat_score) flat_score, ()) =
   Inr (\<lparr> train_x = replicate 2 (replicate d 0) @ replicate 1 (replicate d (- 6)),
          train_obj = replicate 2 flat_score @ replicate 1 flat_score,
          best_observed = [flat_score, flat_score],
          state_dict = Some () \<rparr>, ())"
proof -
  have "bo_iterate corner_library flat_net flat_vae small_config (Suc 0)
     (initial_state (replicate 2 (replicate d 0)) (replicate 2 flat_score) flat_score, ()) =
   Inr (\<lparr> train_x = replicate 2 (replicate d 0) @ replicate 1 (replicate d (- 6)),
          train_obj = replicate 2 flat_score @ replicate 1 flat_score,
          best_observed = [flat_score, flat_score],
          state_dict = Some () \<rparr>, ())"
    by (simp add: corner_bo_iteration [where n = 2] initial_state_def small_config_def)
  then show ?thesis by simp
qed

section \<open>The size of the dataset and the box of its latent vectors\<close>



text \<open>The box of the script, written out: twenty coordinates between \<open>-6\<close> and \<open>6\<close>.\<close>

lemma in_box_bounds:
  "in_box bounds z \<longleftrightarrow> length z = 20 \<and> (\<forall>v\<in>set z. - 6 \<le> v \<and> v \<le> 6)"
  by (auto simp: in_box_def bounds_def d_def zip_replicate2 list_all_iff)

lemma in_unit_cube:
  "in_box (replicate d 0, replicate d 1) z \<longleftrightarrow> length z = d \<and> (\<forall>v\<in>set z. 0 \<le> v \<and> v \<le> 1)"
  by (auto simp: in_box_def zip_replicate2 list_all_iff)

lemma unnormalize_rows:
  assumes "unnormalize c bounds = Inr x"
  shows "x = map (map (\<lambda>v. v * 12 - 6)) c \<and> list_all (\<lambda>z. length z = 20) c"
proof -
  from assms have len: "list_all (\<lambda>z. length z = 20) c"
    and x: "x = map (\<lambda>z. map (\<lambda>(v, lo, hi). v * (hi - lo) + lo)
        (zip z (zip (fst bounds) (snd bounds)))) c"
    by (auto simp: unnormalize_def affine_rows_def bounds_def d_def split: if_splits)
  have "map (\<lambda>(v, lo, hi). v * (hi - lo) + lo) (zip z (zip (fst bounds) (snd bounds))) =
      map (\<lambda>v. v * 12 - 6) z" if "length z = 20" for z
    using that by (simp add: bounds_def d_def zip_replicate2 comp_def)
  with len x show ?thesis by (auto simp: list_all_iff)
qed

lemma unnormalize_into_box:
  assumes un: "unnormalize c bounds = Inr x"
    and cube: "list_all (in_box (replicate d 0, replicate d 1)) c"
  shows "list_all (in_box bounds) x"
proof -
  from unnormalize_rows [OF un] have x: "x = map (map (\<lambda>v. v * 12 - 6)) c" by simp
  have "in_box bounds (map (\<lambda>v. v * 12 - 6) z)" if "in_box (replicate d 0, replicate d 1) z" for z
  proof -
    from that in_unit_cube [of z]
    have "length z = 20" and "\<forall>v\<in>set z. 0 \<le> v \<and> v \<le> 1"
      by (simp_all add: d_def)
    then show ?thesis by (auto simp: in_box_bounds)
  qed
  with cube show ?thesis by (auto simp: x list_all_iff)
qed

lemma dataset_ok_initial:
  assumes rand: "rand_contract lib"
    and init: "gen_initial_data lib cnn vae n g = Inr (tx, tobj, bv, g')"
  shows "dataset_ok cnn vae (initial_state tx tobj bv)"
proof -
  let ?u = "fst (torch_rand lib g n d)"
  from rand have "list_all (\<lambda>row. length row = d \<and> list_all (\<lambda>v. 0 \<le> v \<and> v < 1) row) ?u"
    unfolding rand_contract_def by blast
  then have "list_all (in_box (replicate d 0, replicate d 1)) ?u"
    by (fastforce simp: list_all_iff in_unit_cube intro: less_imp_le)
  from unnormalize_into_box [OF gen_initial_data_Inr(1) [OF init] this]
    gen_initial_data_Inr(2) [OF init]
  show ?thesis by (simp add: dataset_ok_def initial_state_def)
qed

lemma dataset_ok_step:
  assumes opt: "optimize_contract lib"
    and ok: "dataset_ok cnn vae st"
    and one: "bo_iteration lib cnn vae cfg (st, g) = Inr (st', g')"
  shows "dataset_ok cnn vae st'"
proof -
  from bo_iteration_Inr [OF one] obtain model bf c new_x new_obj where
    c: "fst (optimize_acqf lib (qExpectedImprovement model bf None) (replicate d 0, replicate d 1)
            (BATCH_SIZE cfg) (NUM_RESTARTS cfg) (RAW_SAMPLES cfg) g) = Inr c"
    and un: "unnormalize c bounds = Inr new_x"
    and obj: "objective cnn vae new_x = Inr new_obj"
    and tx: "train_x st' = train_x st @ new_x"
    and tobj: "train_obj st' = train_obj st @ new_obj"
    by blast
  from opt c have "list_all (in_box (replicate d 0, replicate d 1)) c"
    unfolding optimize_contract_def by blast
  from unnormalize_into_box [OF un this] ok obj tx tobj show ?thesis
    by (simp add: dataset_ok_def objective_append)
qed

lemma dataset_ok_run:
  assumes rand: "rand_contract lib" and opt: "optimize_contract lib"
    and init: "gen_initial_data lib cnn vae n g0 = Inr (tx, tobj, bv, g1)"
  shows "dataset_ok cnn vae (state_of (bo_iterate lib cnn vae cfg k (initial_state tx tobj bv, g1)))"
proof -
  let ?r = "bo_iterate lib cnn vae cfg k (initial_state tx tobj bv, g1)"
  note inv = bo_iterate_invariant [of "dataset_ok cnn vae" lib cnn vae cfg
      "initial_state tx tobj bv" k g1, OF dataset_ok_step [OF opt] dataset_ok_initial [OF rand init]]
  show ?thesis
  proof (cases ?r)
    case (Inl a)
    then show ?thesis using inv by (cases a) (simp add: state_of_def)
  next
    case (Inr b)
    then show ?thesis using inv by (cases b) (simp add: state_of_def)
  qed
qed

section \<open>The range of the scores\<close>

lemma Max_unit_scores:
  assumes "ss \<noteq> []" "unit_scores ss"
  shows "0 < Max (set ss) \<and> Max (set ss) \<le> 1"
proof -
  from assms(1) have "Max (set ss) \<in> set ss" by (intro Max_in) simp_all
  with assms(2) show ?thesis by (auto simp: unit_scores_def list_all_iff)
qed

lemma scores_ok_initial:
  assumes "gen_initial_data lib cnn vae n g = Inr (tx, tobj, bv, g')"
  shows "scores_ok (initial_state tx tobj bv)"
proof -
  note f = gen_initial_data_Inr [OF assms]
  from objective_range [OF f(2)] have u: "unit_scores tobj" by (simp add: unit_scores_def)
  from Max_unit_scores [OF f(3) u] f(3,4) u show ?thesis
    by (simp add: scores_ok_def initial_state_def unit_scores_def)
qed

lemma scores_ok_step:
  assumes ok: "scores_ok st"
    and one: "bo_iteration lib cnn vae cfg (st, g) = Inr (st', g')"
  shows "scores_ok st'"
proof -
  from bo_iteration_Inr [OF one] obtain new_x new_obj where
    obj: "objective cnn vae new_x = Inr new_obj"
    and tobj: "train_obj st' = train_obj st @ new_obj"
    and bo: "best_observed st' = best_observed st @ [Max (set (train_obj st @ new_obj))]"
    by blast
  from ok have ne: "train_obj st @ new_obj \<noteq> []" by (simp add: scores_ok_def)
  from ok objective_range [OF obj] have u: "unit_scores (train_obj st @ new_obj)"
    by (simp add: scores_ok_def unit_scores_def)
  from Max_unit_scores [OF ne u] u ne ok tobj bo show ?thesis
    by (simp add: scores_ok_def unit_scores_def)
qed

lemma scores_ok_run:
  assumes init: "gen_initial_data lib cnn vae n g0 = Inr (tx, tobj, bv, g1)"
  shows "scores_ok (state_of (bo_iterate lib cnn vae cfg k (initial_state tx tobj bv, g1)))"
proof -
  let ?r = "bo_iterate lib cnn vae cfg k (initial_state tx tobj bv, g1)"
  note inv = bo_iterate_invariant [of scores_ok lib cnn vae cfg
      "initial_state tx tobj bv" k g1, OF scores_ok_step scores_ok_initial [OF init]]
  show ?thesis
  proof (cases ?r)
    case (Inl a)
    then show ?thesis using inv by (cases a) (simp add: state_of_def)
  next
    case (Inr b)
    then show ?thesis using inv by (cases b) (simp add: state_of_def)
  qed
qed

section \<open>Loading the weights\<close>

lemma get_pretrained_dir_fails:
  "get_pretrained_dir os = Inl e \<longleftrightarrow>
     e = FileNotFoundError \<and> environ os ''PRETRAINED_LOCATION'' = None \<and>
     basename (getcwd os) \<noteq> ''botorch'' \<and> basename (getcwd os) \<noteq> ''tutorials''"
  by (auto simp: get_pretrained_dir_def Let_def split: option.splits)

section \<open>The scores of one-hot outputs\<close>

lemma exp_sq_lower: "0 \<le> a \<Longrightarrow> a \<le> exp x \<Longrightarrow> b \<le> a * a \<Longrightarrow> b \<le> exp (2 * x :: real)"
proof -
  assume a: "0 \<le> a" "a \<le> exp x" and b: "b \<le> a * a"
  have "a * a \<le> exp x * exp x" using a by (intro mult_mono) simp_all
  also have "\<dots> = exp (2 * x)" by (simp add: exp_add [symmetric])
  finally show ?thesis using b by simp
qed

lemma exp_sq_upper: "exp x \<le> a \<Longrightarrow> a * a \<le> b \<Longrightarrow> exp (2 * x :: real) \<le> b"
proof -
  assume a: "exp x \<le> a" and b: "a * a \<le> b"
  have "exp (2 * x) = exp x * exp x" by (simp add: exp_add [symmetric])
  also have "\<dots> \<le> a * a"
    using a order_trans [OF exp_ge_zero a] by (intro mult_mono) simp_all
  finally show ?thesis using b by simp
qed

lemma exp_minus_18_lower: "(152 / 10 ^ 10 :: real) < exp (- 18)"
proof -
  have l0: "(524279 / 524288 :: real) \<le> exp (- 9 / 524288)"
    using exp_ge_add_one_self [of "- 9 / 524288 :: real"] by simp
  have l1: "(499982834009642829 / 500000000000000000 :: real) \<le> exp (- 9 / 262144)"
    using exp_sq_lower [OF _ l0, of "499982834009642829 / 500000000000000000"] by simp
  have l2: "(199986267443451243 / 200000000000000000 :: real) \<le> exp (- 9 / 131072)"
    using exp_sq_lower [OF _ l1, of "199986267443451243 / 200000000000000000"] by simp
  have l3: "(249965669787272541 / 250000000000000000 :: real) \<le> exp (- 9 / 65536)"
    using exp_sq_lower [OF _ l2, of "249965669787272541 / 250000000000000000"] by simp
  have l4: "(499862688577598211 / 500000000000000000 :: real) \<le> exp (- 9 / 32768)"
    using exp_sq_lower [OF _ l3, of "499862688577598211 / 500000000000000000"] by simp
  have l5: "(249862707432024933 / 250000000000000000 :: real) \<le> exp (- 9 / 16384)"
    using exp_sq_lower [OF _ l4, of "249862707432024933 / 250000000000000000"] by simp
  have l6: "(998901961044187003 / 1000000000000000000 :: real) \<le> exp (- 9 / 8192)"
    using exp_sq_lower [OF _ l5, of "998901961044187003 / 1000000000000000000"] by simp
  have l7: "(124725640972240311 / 125000000000000000 :: real) \<le> exp (- 9 / 4096)"
    using exp_sq_lower [OF _ l6, of "124725640972240311 / 125000000000000000"] by simp
  have l8: "(995615073019916223 / 1000000000000000000 :: real) \<le> exp (- 9 / 2048)"
    using exp_sq_lower [OF _ l7, of "995615073019916223 / 1000000000000000000"] by simp
  have l9: "(123906171703056639 / 125000000000000000 :: real) \<le> exp (- 9 / 1024)"
    using exp_sq_lower [OF _ l8, of "123906171703056639 / 125000000000000000"] by simp
  have l10: "(12282191508885883 / 12500000000000000 :: real) \<le> exp (- 9 / 512)"
    using exp_sq_lower [OF _ l9, of "12282191508885883 / 12500000000000000"] by simp
  have l11: "(965454260870070293 / 1000000000000000000 :: real) \<le> exp (- 9 / 256)"
    using exp_sq_lower [OF _ l10, of "965454260870070293 / 1000000000000000000"] by simp
  have l12: "(466050964916086871 / 500000000000000000 :: real) \<le> exp (- 9 / 128)"
    using exp_sq_lower [OF _ l11, of "466050964916086871 / 500000000000000000"] by simp
  have l13: "(434407003798431271 / 500000000000000000 :: real) \<le> exp (- 9 / 64)"
    using exp_sq_lower [OF _ l12, of "434407003798431271 / 500000000000000000"] by simp
  have l14: "(377418889898260561 / 500000000000000000 :: real) \<le> exp (- 9 / 32)"
    using exp_sq_lower [OF _ l13, of "377418889898260561 / 500000000000000000"] by simp
  have l15: "(56978007380814131 / 100000000000000000 :: real) \<le> exp (- 9 / 16)"
    using exp_sq_lower [OF _ l14, of "56978007380814131 / 100000000000000000"] by simp
  have l16: "(162324666254405479 / 500000000000000000 :: real) \<le> exp (- 9 / 8)"
    using exp_sq_lower [OF _ l15, of "162324666254405479 / 500000000000000000"] by simp
  have l17: "(105397189098416499 / 1000000000000000000 :: real) \<le> exp (- 9 / 4)"
    using exp_sq_lower [OF _ l16, of "105397189098416499 / 1000000000000000000"] by simp
  have l18: "(2221713493969473 / 200000000000000000 :: real) \<le> exp (- 9 / 2)"
    using exp_sq_lower [OF _ l17, of "2221713493969473 / 200000000000000000"] by simp
  have l19: "(123400271232151 / 1000000000000000000 :: real) \<le> exp (- 9)"
    using exp_sq_lower [OF _ l18, of "123400271232151 / 1000000000000000000"] by simp
  have l20: "(761381347 / 50000000000000000 :: real) \<le> exp (- 18)"
    using exp_sq_lower [OF _ l19, of "761381347 / 50000000000000000"] by simp
  show ?thesis using l20 by simp
qed

lemma exp_minus_18_upper: "exp (- 18) < (153 / 10 ^ 10 :: real)"
proof -
  have "1 + (18 / 1048576 :: real) \<le> exp (18 / 1048576)" by (rule exp_ge_add_one_self)
  then have "exp (- 9 / 524288) \<le> 1 / (1 + (18 / 1048576 :: real))"
    by (simp add: exp_minus field_simps)
  then have u0: "exp (- 9 / 524288) \<le> (524288 / 524297 :: real)" by simp
  have u1: "exp (- 9 / 262144) \<le> (124995708576077249 / 125000000000000000 :: real)"
    using exp_sq_upper [OF u0, of "124995708576077249 / 125000000000000000"] by simp
  have u2: "exp (- 9 / 131072) \<le> (999931338395880419 / 1000000000000000000 :: real)"
    using exp_sq_upper [OF u1, of "999931338395880419 / 1000000000000000000"] by simp
  have u3: "exp (- 9 / 65536) \<le> (999862681506176719 / 1000000000000000000 :: real)"
    using exp_sq_upper [OF u2, of "999862681506176719 / 1000000000000000000"] by simp
  have u4: "exp (- 9 / 32768) \<le> (124965672733590273 / 125000000000000000 :: real)"
    using exp_sq_upper [OF u3, of "124965672733590273 / 125000000000000000"] by simp
  have u5: "exp (- 9 / 16384) \<le> (199890167830512479 / 200000000000000000 :: real)"
    using exp_sq_upper [OF u4, of "199890167830512479 / 200000000000000000"] by simp
  have u6: "exp (- 9 / 8192) \<le> (998901979882761149 / 1000000000000000000 :: real)"
    using exp_sq_upper [OF u5, of "998901979882761149 / 1000000000000000000"] by simp
  have u7: "exp (- 9 / 4096) \<le> (3118141141917813 / 3125000000000000 :: real)"
    using exp_sq_upper [OF u6, of "3118141141917813 / 3125000000000000"] by simp
  have u8: "exp (- 9 / 2048) \<le> (497807574063130769 / 500000000000000000 :: real)"
    using exp_sq_upper [OF u7, of "497807574063130769 / 500000000000000000"] by simp
  have u9: "exp (- 9 / 1024) \<le> (123906190397309713 / 125000000000000000 :: real)"
    using exp_sq_upper [OF u8, of "123906190397309713 / 125000000000000000"] by simp
  have u10: "exp (- 9 / 512) \<le> (982575617201559407 / 1000000000000000000 :: real)"
    using exp_sq_upper [OF u9, of "982575617201559407 / 1000000000000000000"] by simp
  have u11: "exp (- 9 / 256) \<le> (965454843519025407 / 1000000000000000000 :: real)"
    using exp_sq_upper [OF u10, of "965454843519025407 / 1000000000000000000"] by simp
  have u12: "exp (- 9 / 128) \<le> (186420610974869167 / 200000000000000000 :: real)"
    using exp_sq_upper [OF u11, of "186420610974869167 / 200000000000000000"] by simp
  have u13: "exp (- 9 / 64) \<le> (868816104906087763 / 1000000000000000000 :: real)"
    using exp_sq_upper [OF u12, of "868816104906087763 / 1000000000000000000"] by simp
  have u14: "exp (- 9 / 32) \<le> (377420712072093049 / 500000000000000000 :: real)"
    using exp_sq_upper [OF u13, of "377420712072093049 / 500000000000000000"] by simp
  have u15: "exp (- 9 / 16) \<le> (35611598475251441 / 62500000000000000 :: real)"
    using exp_sq_upper [OF u14, of "35611598475251441 / 62500000000000000"] by simp
  have u16: "exp (- 9 / 8) \<le> (162327801083203937 / 500000000000000000 :: real)"
    using exp_sq_upper [OF u15, of "162327801083203937 / 500000000000000000"] by simp
  have u17: "exp (- 9 / 4) \<le> (52700630009016451 / 500000000000000000 :: real)"
    using exp_sq_upper [OF u16, of "52700630009016451 / 500000000000000000"] by simp
  have u18: "exp (- 9 / 2) \<le> (5554712806694491 / 500000000000000000 :: real)"
    using exp_sq_upper [OF u17, of "5554712806694491 / 500000000000000000"] by simp
  have u19: "exp (- 9) \<le> (3856854295607 / 31250000000000000 :: real)"
    using exp_sq_upper [OF u18, of "3856854295607 / 31250000000000000"] by simp
  have u20: "exp (- 18) \<le> (15232332859 / 1000000000000000000 :: real)"
    using exp_sq_upper [OF u19, of "15232332859 / 1000000000000000000"] by simp
  show ?thesis using u20 by simp
qed

lemma one_hot_3: "one_hot 3 = [0, 0, 0, 1, 0, 0, 0, 0, 0, 0]"
  by (simp add: one_hot_def eval_nat_numeral)

lemma one_hot_0: "one_hot 0 = [1, 0, 0, 0, 0, 0, 0, 0, 0, 0]"
  by (simp add: one_hot_def eval_nat_numeral)

lemma arange_10: "arange 10 = [0, 1, 2, 3, 4, 5, 6, 7, 8, 9]"
proof -
  have "[0..<10] = [0, 1, 2, 3, 4, 5, 6, 7, 8, 9 :: nat]"
    by (simp add: upt_conv_Cons)
  then show ?thesis by (simp add: arange_def)
qed

lemma expected_score_one_hot_3: "expected_score (one_hot 3) = Inr 1"
  by (simp add: expected_score_def one_hot_3 arange_10 score_def)

lemma expected_score_one_hot_0: "expected_score (one_hot 0) = Inr (exp (- 18))"
  by (simp add: expected_score_def one_hot_0 arange_10 score_def)

lemma expected_score_sum:
  assumes "length probs = 10"
  shows "expected_score probs = Inr (\<Sum>i<10. probs ! i * exp (- 2 * (real i - 3) ^ 2))"
proof -
  let ?s = "map score (arange 10)"
  have len: "length (map2 (*) probs ?s) = 10" using assms by (simp add: arange_def)
  have "sum_list (map2 (*) probs ?s) = (\<Sum>i = 0..<10. map2 (*) probs ?s ! i)"
    using len by (simp add: sum_list_sum_nth)
  also have "\<dots> = (\<Sum>i = 0..<10. probs ! i * exp (- 2 * (real i - 3) ^ 2))"
    using assms by (intro sum.cong) (simp_all add: arange_def score_def)
  finally show ?thesis using assms by (simp add: expected_score_def lessThan_atLeast0)
qed

section \<open>The objective on a batch without rows\<close>

lemma load_cnn_model_shapes:
  "load_cnn_model os = Inr net \<Longrightarrow> has_shape (fc1 net) 500 800 \<and> has_shape (fc2 net) 10 500"
  by (auto simp: load_cnn_model_def Net_load_state_dict_def
      split: sum.splits state_dict_file.splits if_splits)

lemma load_vae_model_shapes:
  "load_vae_model os = Inr vae \<Longrightarrow> has_shape (fc3 vae) 400 20 \<and> has_shape (fc4 vae) 784 400"
  by (auto simp: load_vae_model_def VAE_load_state_dict_def
      split: sum.splits state_dict_file.splits if_splits)

lemma F_linear_shape_batch:
  "has_shape l out_features in_features \<Longrightarrow> 0 < out_features \<Longrightarrow>
   F_linear_shape l [n, w] = (if w = in_features then Inr [n, out_features] else Inl RuntimeError)"
  by (cases "weight l") (auto simp: F_linear_shape_def has_shape_def list_all_iff)

lemma decode_shape_batch:
  assumes "has_shape (fc3 vae) 400 20" "has_shape (fc4 vae) 784 400"
  shows "decode_shape vae [n, w] =
     (if w = 20 then Inr [n, 1, 28, 28] else Inl RuntimeError)"
  using assms
  by (simp add: decode_shape_def VAE_decode_shape_def elementwise_def view_shape_def numel_def
      F_linear_shape_batch [where out_features = 400 and in_features = 20]
      F_linear_shape_batch [where out_features = 784 and in_features = 400])

lemma Net_forward_shape_batch:
  assumes "has_shape (fc1 net) 500 800" "has_shape (fc2 net) 10 500"
  shows "Net_forward_shape net [n, 1, 28, 28] = Inr [n, 10]"
  using assms
  by (simp add: Net_forward_shape_def conv2d_shape_def max_pool2d_shape_def elementwise_def
      view_infer_shape_def numel_def log_softmax_shape_def
      F_linear_shape_batch [where out_features = 500 and in_features = 800]
      F_linear_shape_batch [where out_features = 10 and in_features = 500])

lemma score_image_shape_batch:
  assumes "has_shape (fc1 net) 500 800" "has_shape (fc2 net) 10 500"
  shows "score_image_shape net [n, 1, 28, 28] = Inr [n]"
  using Net_forward_shape_batch [OF assms]
  by (simp add: score_image_shape_def elementwise_def expand_shape_def sum_dim1_shape_def)

lemma objective_shape_batch:
  assumes "load_cnn_model os = Inr cnn" "load_vae_model os = Inr vae"
  shows "objective_shape cnn vae [n, w] = (if w = 20 then Inr [n] else Inl RuntimeError)"
  using load_cnn_model_shapes [OF assms(1)] load_vae_model_shapes [OF assms(2)]
  by (simp add: objective_shape_def decode_shape_batch
      score_image_shape_batch [unfolded One_nat_def])

text \<open>
  On batches that have rows, the shapes agree with the rows: with the loaded networks
  and a convolutional front that returns its 800 features, the objective accepts the
  rows exactly when their width is 20, as it accepts their shape, and returns one score
  for each row.
\<close>

lemma map_rows_Inr_iff:
  "(\<exists>ys. map_rows f xs = Inr ys) \<longleftrightarrow> list_all (\<lambda>x. \<exists>y. f x = Inr y) xs"
  by (induction xs) (auto split: sum.splits)

lemma F_linear_has_shape:
  "has_shape l out_features in_features \<Longrightarrow> 0 < out_features \<Longrightarrow>
   F_linear l z =
     (if length z = in_features
      then Inr (map2 (\<lambda>w b. dot w z + b) (weight l) (bias l)) else Inl RuntimeError)"
  by (cases "weight l") (auto simp: F_linear_def has_shape_def list_all_iff)

lemma VAE_decode_has_shape:
  assumes "has_shape (fc3 vae) 400 20" "has_shape (fc4 vae) 784 400"
  shows "length z = 20 \<longrightarrow> (\<exists>img. VAE_decode vae z = Inr img \<and> length img = 784)"
    and "length z \<noteq> 20 \<longrightarrow> VAE_decode vae z = Inl RuntimeError"
proof -
  from assms have l3: "length (weight (fc3 vae)) = 400" "length (bias (fc3 vae)) = 400"
    and l4: "length (weight (fc4 vae)) = 784" "length (bias (fc4 vae)) = 784"
    by (simp_all add: has_shape_def)
  show "length z = 20 \<longrightarrow> (\<exists>img. VAE_decode vae z = Inr img \<and> length img = 784)"
    and "length z \<noteq> 20 \<longrightarrow> VAE_decode vae z = Inl RuntimeError"
    by (simp_all add: VAE_decode_def relu_def sigmoid_def l3 l4
        F_linear_has_shape [OF assms(1)] F_linear_has_shape [OF assms(2)])
qed

lemma decode_has_shape:
  assumes "has_shape (fc3 vae) 400 20" "has_shape (fc4 vae) 784 400"
  shows "(\<exists>imgs. decode vae rows = Inr imgs) \<longleftrightarrow> list_all (\<lambda>z. length z = 20) rows"
proof
  assume "\<exists>imgs. decode vae rows = Inr imgs"
  then have "\<exists>ys. map_rows (VAE_decode vae) rows = Inr ys"
    by (auto simp: decode_def split: sum.splits)
  then have "list_all (\<lambda>z. \<exists>y. VAE_decode vae z = Inr y) rows"
    by (simp add: map_rows_Inr_iff)
  then show "list_all (\<lambda>z. length z = 20) rows"
    using VAE_decode_has_shape(2) [OF assms] by (fastforce simp: list_all_iff)
next
  assume w: "list_all (\<lambda>z. length z = 20) rows"
  then have "list_all (\<lambda>z. \<exists>y. VAE_decode vae z = Inr y) rows"
    using VAE_decode_has_shape(1) [OF assms] by (fastforce simp: list_all_iff)
  then obtain ys where ys: "map_rows (VAE_decode vae) rows = Inr ys"
    using map_rows_Inr_iff [of "VAE_decode vae" rows] by blast
  have "length img = 784" if "VAE_decode vae z = Inr img" for z img
    using that VAE_decode_has_shape [OF assms, of z] by (cases "length z = 20") auto
  with ys have "list_all (\<lambda>img. length img = 784) ys"
    by (rule map_rows_Inr_all)
  with ys show "\<exists>imgs. decode vae rows = Inr imgs" by (simp add: decode_def)
qed

lemma score_image_row_has_shape:
  assumes "has_shape (fc1 net) 500 800" "has_shape (fc2 net) 10 500"
    and "length (conv_front net x) = 800"
  shows "\<exists>v. score_image_row net x = Inr v"
proof -
  from assms have l1: "length (weight (fc1 net)) = 500" "length (bias (fc1 net)) = 500"
    and l2: "length (weight (fc2 net)) = 10" "length (bias (fc2 net)) = 10"
    by (simp_all add: has_shape_def)
  show ?thesis
    by (simp add: score_image_row_def Net_forward_def relu_def log_softmax_def
        expected_score_def l1 l2 assms(3)
        F_linear_has_shape [OF assms(1)] F_linear_has_shape [OF assms(2)])
qed

lemma objective_agrees_with_shape:
  assumes cnn: "load_cnn_model os = Inr cnn" and vae: "load_vae_model os = Inr vae"
    and front: "\<And>x. length (conv_front cnn x) = 800"
    and rows: "list_all (\<lambda>z. length z = w) rows" "rows \<noteq> []"
  shows "(\<exists>ss. objective cnn vae rows = Inr ss \<and> length ss = length rows) \<longleftrightarrow>
         objective_shape cnn vae [length rows, w] = Inr [length rows]"
proof -
  note sn = load_cnn_model_shapes [OF cnn] and sv = load_vae_model_shapes [OF vae]
  from rows have w: "list_all (\<lambda>z. length z = 20) rows \<longleftrightarrow> w = 20"
    by (cases rows) (auto simp: list_all_iff)
  have sc: "\<exists>ss. score_image cnn imgs = Inr ss" for imgs
    unfolding score_image_def map_rows_Inr_iff
    using score_image_row_has_shape [of cnn] sn front by (simp add: list_all_iff)
  have "(\<exists>ss. objective cnn vae rows = Inr ss) \<longleftrightarrow> (\<exists>imgs. decode vae rows = Inr imgs)"
    using sc by (auto simp: objective_def split: sum.splits)
  also have "\<dots> \<longleftrightarrow> w = 20"
    using decode_has_shape [of vae rows] sv w by simp
  finally have "(\<exists>ss. objective cnn vae rows = Inr ss) \<longleftrightarrow> w = 20" .
  moreover have "(\<exists>ss. objective cnn vae rows = Inr ss \<and> length ss = length rows) \<longleftrightarrow>
      (\<exists>ss. objective cnn vae rows = Inr ss)"
    using objective_length by blast
  ultimately show ?thesis
    by (simp add: objective_shape_batch [OF cnn vae])
qed

lemma stocked_os_loads:
  "load_cnn_model stocked_os = Inr zero_net" "load_vae_model stocked_os = Inr zero_vae"
  by (simp_all add: load_cnn_model_def load_vae_model_def get_pretrained_dir_def
      stocked_os_def torch_load_def path_join_def Net_load_state_dict_def
      VAE_load_state_dict_def has_shape_def zero_net_def zero_vae_def list_all_iff)

section \<open>The claims\<close>

text \<open>
  C9. With the networks the script has loaded, the objective evaluator accepts a batch
  of zero latent vectors of dimension 20: every batched call of \<open>decode\<close> and
  \<open>score_image\<close> accepts the shape it is handed, from \<open>[0, 20]\<close> to the result \<open>[0]\<close>,
  the vector of no scores; and on the rows the evaluator returns the empty sequence of
  scores. No exception is raised.
\<close>

theorem empty_batch_gives_empty_scores:
  assumes "load_cnn_model os = Inr cnn_model" and "load_vae_model os = Inr vae_model"
  shows "objective_shape cnn_model vae_model [0, 20] = Inr [0] \<and>
         objective cnn_model vae_model [] = Inr []"
  using objective_shape_batch [OF assms, of 0 20]
  by (simp add: objective_def decode_def score_image_def)

theorem empty_batch_gives_empty_scores_witness:
  "load_cnn_model stocked_os = Inr zero_net \<and> load_vae_model stocked_os = Inr zero_vae \<and>
   objective_shape zero_net zero_vae [0, 20] = Inr [0] \<and>
   objective zero_net zero_vae [] = Inr []"
  using stocked_os_loads empty_batch_gives_empty_scores [OF stocked_os_loads]
  by simp

text \<open>
  C2. The history of best observed values never decreases: whenever the initial data
  were drawn, then after any number \<open>k\<close> of iterations of the loop, ended normally or by
  an exception, every entry of \<open>best_observed\<close> is at most the next one.
\<close>

theorem best_observed_nondecreasing:
  assumes "gen_initial_data lib cnn_model vae_model n g0 = Inr (tx, tobj, bv, g1)"
    and "st = state_of (bo_iterate lib cnn_model vae_model cfg k (initial_state tx tobj bv, g1))"
  shows "\<forall>i. i + 1 < length (best_observed st) \<longrightarrow>
           best_observed st ! i \<le> best_observed st ! (i + 1)"
proof -
  from history_ok_run [OF assms(1)] assms(2) have "sorted (best_observed st)"
    by (simp add: history_ok_def)
  then show ?thesis by (simp add: sorted_iff_nth_mono)
qed

theorem best_observed_nondecreasing_witness:
  "gen_initial_data corner_library flat_net flat_vae 2 () =
     Inr (replicate 2 (replicate d 0), replicate 2 flat_score, flat_score, ()) \<and>
   best_observed (state_of (bo_iterate corner_library flat_net flat_vae small_config 1
     (initial_state (replicate 2 (replicate d 0)) (replicate 2 flat_score) flat_score, ())))
     = [flat_score, flat_score] \<and>
   [flat_score, flat_score] ! 0 \<le> [flat_score, flat_score] ! (0 + 1)"
proof -
  have init: "gen_initial_data corner_library flat_net flat_vae 2 () =
     Inr (replicate 2 (replicate d 0), replicate 2 flat_score, flat_score, ())"
    by (simp add: corner_gen_initial_data)
  have h: "best_observed (state_of (bo_iterate corner_library flat_net flat_vae small_config 1
     (initial_state (replicate 2 (replicate d 0)) (replicate 2 flat_score) flat_score, ())))
     = [flat_score, flat_score]"
    unfolding corner_run_one by (simp add: state_of_def)
  show ?thesis
    using init h best_observed_nondecreasing [OF init refl, of small_config 1]
    by simp
qed

text \<open>
  C3. After any number \<open>k\<close> of iterations, ended normally or by an exception, the last
  entry of \<open>best_observed\<close> is the largest score in the dataset; and when all \<open>k\<close>
  iterations completed, the history has \<open>1 + k\<close> entries.
\<close>

theorem best_observed_last_is_max:
  assumes "gen_initial_data lib cnn_model vae_model n g0 = Inr (tx, tobj, bv, g1)"
    and "r = bo_iterate lib cnn_model vae_model cfg k (initial_state tx tobj bv, g1)"
  shows "train_obj (state_of r) \<noteq> [] \<and> best_observed (state_of r) \<noteq> [] \<and>
         last (best_observed (state_of r)) = Max (set (train_obj (state_of r))) \<and>
         (\<forall>st g2. r = Inr (st, g2) \<longrightarrow> length (best_observed st) = 1 + k)"
proof -
  from history_ok_run [OF assms(1)] assms(2)
  have "train_obj (state_of r) \<noteq> [] \<and> best_observed (state_of r) \<noteq> [] \<and>
         last (best_observed (state_of r)) = Max (set (train_obj (state_of r)))"
    by (simp add: history_ok_def)
  moreover have "length (best_observed st) = 1 + k" if "r = Inr (st, g2)" for st g2
    using bo_iterate_history_length [of lib cnn_model vae_model cfg k "initial_state tx tobj bv" g1 st g2]
      that assms(2) by (simp add: initial_state_def)
  ultimately show ?thesis by blast
qed

theorem best_observed_last_is_max_witness:
  "gen_initial_data corner_library flat_net flat_vae 2 () =
     Inr (replicate 2 (replicate d 0), replicate 2 flat_score, flat_score, ()) \<and>
   last [flat_score, flat_score] = Max (set (replicate 2 flat_score @ replicate 1 flat_score)) \<and>
   length [flat_score, flat_score] = 1 + (1 :: nat)"
proof -
  have init: "gen_initial_data corner_library flat_net flat_vae 2 () =
     Inr (replicate 2 (replicate d 0), replicate 2 flat_score, flat_score, ())"
    by (simp add: corner_gen_initial_data)
  show ?thesis
    using init best_observed_last_is_max [OF init refl, of small_config 1]
    unfolding corner_run_one by (simp add: state_of_def)
qed



text \<open>
  C4. When the random generator returns numbers in \<open>[0, 1)\<close> and the optimiser candidates
  within the bounds it is given, the scores of the dataset are the objective evaluated
  at its latent vectors, and every one of these vectors has twenty coordinates, all
  between \<open>-6\<close> and \<open>6\<close>. This holds after any number of iterations, ended normally or
  by an exception.
\<close>

theorem evaluated_latents_within_bounds:
  assumes rand: "rand_contract lib" and opt: "optimize_contract lib"
    and init: "gen_initial_data lib cnn_model vae_model n g0 = Inr (tx, tobj, bv, g1)"
    and st: "st = state_of (bo_iterate lib cnn_model vae_model cfg k (initial_state tx tobj bv, g1))"
  shows "objective cnn_model vae_model (train_x st) = Inr (train_obj st) \<and>
         list_all (in_box bounds) (train_x st) \<and>
         (\<forall>z\<in>set (train_x st). length z = 20 \<and> (\<forall>v\<in>set z. - 6 \<le> v \<and> v \<le> 6))"
  using dataset_ok_run [OF rand opt init, of cfg k] st
  by (auto simp: dataset_ok_def list_all_iff in_box_bounds)

theorem evaluated_latents_within_bounds_witness:
  "rand_contract corner_library \<and> optimize_contract corner_library \<and>
   gen_initial_data corner_library flat_net flat_vae 2 () =
     Inr (replicate 2 (replicate d 0), replicate 2 flat_score, flat_score, ()) \<and>
   list_all (in_box bounds) (replicate 2 (replicate d 0) @ replicate 1 (replicate d (- 6)))"
proof -
  have init: "gen_initial_data corner_library flat_net flat_vae 2 () =
     Inr (replicate 2 (replicate d 0), replicate 2 flat_score, flat_score, ())"
    by (simp add: corner_gen_initial_data)
  show ?thesis
    using init corner_rand_contract corner_optimize_contract
      evaluated_latents_within_bounds [OF corner_rand_contract corner_optimize_contract
        init refl, of small_config 1]
    unfolding corner_run_one by (simp add: state_of_def)
qed

text \<open>
  C10. Every score the objective returns is positive and at most \<open>1\<close>. Hence, once the
  initial data are drawn, every score in the dataset and every entry of the history of
  best observed values is positive and at most \<open>1\<close>, after any number of iterations,
  ended normally or by an exception.
\<close>

theorem scores_in_unit_interval:
  "(objective cnn_model vae_model x = Inr ss \<longrightarrow> (\<forall>s\<in>set ss. 0 < s \<and> s \<le> 1)) \<and>
   (gen_initial_data lib cnn_model vae_model n g0 = Inr (tx, tobj, bv, g1) \<and>
    st = state_of (bo_iterate lib cnn_model vae_model cfg k (initial_state tx tobj bv, g1)) \<longrightarrow>
      (\<forall>s\<in>set (train_obj st). 0 < s \<and> s \<le> 1) \<and>
      (\<forall>b\<in>set (best_observed st). 0 < b \<and> b \<le> 1))"
proof (intro conjI impI)
  assume "objective cnn_model vae_model x = Inr ss"
  from objective_range [OF this] show "\<forall>s\<in>set ss. 0 < s \<and> s \<le> 1"
    by (simp add: list_all_iff)
next
  assume a: "gen_initial_data lib cnn_model vae_model n g0 = Inr (tx, tobj, bv, g1) \<and>
    st = state_of (bo_iterate lib cnn_model vae_model cfg k (initial_state tx tobj bv, g1))"
  with scores_ok_run [of lib cnn_model vae_model n g0 tx tobj bv g1 cfg k]
  have "scores_ok st" by simp
  then show "\<forall>s\<in>set (train_obj st). 0 < s \<and> s \<le> 1"
    and "\<forall>b\<in>set (best_observed st). 0 < b \<and> b \<le> 1"
    by (simp_all add: scores_ok_def unit_scores_def list_all_iff)
qed

theorem scores_in_unit_interval_witness:
  "objective flat_net flat_vae [replicate d 0] = Inr [flat_score] \<and>
   gen_initial_data corner_library flat_net flat_vae 2 () =
     Inr (replicate 2 (replicate d 0), replicate 2 flat_score, flat_score, ()) \<and>
   0 < flat_score \<and> flat_score \<le> 1"
proof -
  have obj: "objective flat_net flat_vae [replicate d 0] = Inr [flat_score]"
    by (simp add: flat_objective)
  have init: "gen_initial_data corner_library flat_net flat_vae 2 () =
     Inr (replicate 2 (replicate d 0), replicate 2 flat_score, flat_score, ())"
    by (simp add: corner_gen_initial_data)
  show ?thesis
    using obj init
      scores_in_unit_interval [of flat_net flat_vae "[replicate d 0]" "[flat_score]"
        corner_library 2 "()" "replicate 2 (replicate d 0)" "replicate 2 flat_score" flat_score "()"
        "state_of (bo_iterate corner_library flat_net flat_vae small_config 1
           (initial_state (replicate 2 (replicate d 0)) (replicate 2 flat_score) flat_score, ()))"
        small_config 1]
    by simp
qed

text \<open>
  C7. If the directory of the pretrained models cannot be resolved (the environment
  variable is unset and the working directory is neither \<open>botorch\<close> nor \<open>tutorials\<close>),
  or it is resolved and one of the two weight files is missing, the script ends with an
  exception raised while the networks are loaded, before the initial batch and before
  any iteration: no dataset and no history exist. The exception is FileNotFoundError,
  unless loading the classifier already failed otherwise.
\<close>

theorem missing_weights_abort_before_loop:
  "(environ os ''PRETRAINED_LOCATION'' = None \<and>
    basename (getcwd os) \<noteq> ''botorch'' \<and> basename (getcwd os) \<noteq> ''tutorials'' \<longrightarrow>
      script lib os = Aborted FileNotFoundError None) \<and>
   (get_pretrained_dir os = Inr dir \<and> files os (path_join dir ''mnist_cnn.pt'') = None \<longrightarrow>
      script lib os = Aborted FileNotFoundError None) \<and>
   (get_pretrained_dir os = Inr dir \<and> files os (path_join dir ''mnist_vae.pt'') = None \<longrightarrow>
      (\<exists>e. script lib os = Aborted e None \<and>
           (e = FileNotFoundError \<or> load_cnn_model os = Inl e)))"
proof (intro conjI impI; elim conjE)
  assume "environ os ''PRETRAINED_LOCATION'' = None"
    "basename (getcwd os) \<noteq> ''botorch''" "basename (getcwd os) \<noteq> ''tutorials''"
  then have "get_pretrained_dir os = Inl FileNotFoundError"
    by (simp add: get_pretrained_dir_fails)
  then show "script lib os = Aborted FileNotFoundError None"
    by (simp add: script_def load_cnn_model_def)
next
  assume "get_pretrained_dir os = Inr dir" "files os (path_join dir ''mnist_cnn.pt'') = None"
  then show "script lib os = Aborted FileNotFoundError None"
    by (simp add: script_def load_cnn_model_def torch_load_def)
next
  assume "get_pretrained_dir os = Inr dir" "files os (path_join dir ''mnist_vae.pt'') = None"
  then have lv: "load_vae_model os = Inl FileNotFoundError"
    by (simp add: load_vae_model_def torch_load_def)
  show "\<exists>e. script lib os = Aborted e None \<and>
           (e = FileNotFoundError \<or> load_cnn_model os = Inl e)"
  proof (cases "load_cnn_model os")
    case (Inl e)
    then show ?thesis by (simp add: script_def)
  next
    case (Inr cnn)
    with lv show ?thesis by (simp add: script_def)
  qed
qed

theorem missing_weights_abort_before_loop_witness:
  "environ bare_os ''PRETRAINED_LOCATION'' = None \<and>
   basename (getcwd bare_os) = ''user'' \<and>
   script corner_library bare_os = Aborted FileNotFoundError None \<and>
   get_pretrained_dir located_os = Inr ''/models'' \<and>
   files located_os (path_join ''/models'' ''mnist_cnn.pt'') = None \<and>
   script corner_library located_os = Aborted FileNotFoundError None"
proof -
  have a: "environ bare_os ''PRETRAINED_LOCATION'' = None"
    and b: "basename (getcwd bare_os) = ''user''"
    by (simp_all add: bare_os_def basename_def)
  have c: "get_pretrained_dir located_os = Inr ''/models''"
    and e: "files located_os (path_join ''/models'' ''mnist_cnn.pt'') = None"
    by (simp_all add: located_os_def get_pretrained_dir_def)
  show ?thesis
    using a b c e
      missing_weights_abort_before_loop [of bare_os corner_library "[]"]
      missing_weights_abort_before_loop [of located_os corner_library "''/models''"]
    by simp
qed

text \<open>
  C8, as amended. The scoring oracle returns the expectation of the label score
  \<open>exp (-2 (label - 3)\<^sup>2)\<close> under the class probabilities it is given. For the output
  that is one-hot on label 3 the score is \<open>1\<close>; for the output that is one-hot on label
  0 it is \<open>exp (-18)\<close>, which lies between \<open>1.52e-8\<close> and \<open>1.53e-8\<close>.
\<close>

theorem expected_score_of_one_hot:
  "expected_score (one_hot 3) = Inr 1 \<and>
   expected_score (one_hot 0) = Inr (exp (- 18)) \<and>
   152 / 10 ^ 10 < exp (- 18 :: real) \<and> exp (- 18 :: real) < 153 / 10 ^ 10 \<and>
   (length probs = 10 \<longrightarrow>
      expected_score probs = Inr (\<Sum>i<10. probs ! i * exp (- 2 * (real i - 3) ^ 2))) \<and>
   score_image_row cnn_model x =
     (case Net_forward cnn_model x of
        Inl e \<Rightarrow> Inl e
      | Inr logp \<Rightarrow> expected_score (map exp logp))"
  using expected_score_one_hot_3 expected_score_one_hot_0 exp_minus_18_lower exp_minus_18_upper
    expected_score_sum [of probs]
  by (simp add: score_image_row_def)

theorem expected_score_of_one_hot_witness:
  "length (replicate 10 (1 / 10 :: real)) = 10 \<and>
   expected_score (replicate 10 (1 / 10)) =
     Inr (\<Sum>i<10. replicate 10 (1 / 10) ! i * exp (- 2 * (real i - 3) ^ 2))"
  using expected_score_of_one_hot [of "replicate 10 (1 / 10)"]
  by simp

text \<open>
  C8, as stated. The value given for label 0, \<open>1.23e-8\<close>, is not the score: the score
  differs from it by more than \<open>0.29e-8\<close>.
\<close>

theorem one_hot_0_score_is_not_1_23e_8:
  "\<not> (\<exists>v. expected_score (one_hot 0) = Inr v \<and> \<bar>v - 123 / 10 ^ 10\<bar> \<le> 29 / 10 ^ 10)"
  using exp_minus_18_lower by (simp add: expected_score_one_hot_0)

text \<open>
  C6. The loop builds the acquisition function from the model and the best score alone
  and passes no sampler: with a library whose optimiser fails on every acquisition
  function that has no sampler, no iteration of the loop completes, whatever the
  configuration. The number of Monte Carlo samples is therefore not set by the script.
\<close>

theorem acquisition_built_without_sampler:
  assumes "\<forall>acq bnds q nr rs g. sampler acq = None \<longrightarrow>
             (\<exists>e. fst (optimize_acqf lib acq bnds q nr rs g) = Inl e)"
  shows "\<exists>e. bo_iteration lib cnn_model vae_model cfg (st, g) = Inl e"
proof (cases "bo_iteration lib cnn_model vae_model cfg (st, g)")
  case (Inl e)
  then show ?thesis by blast
next
  case (Inr s')
  obtain st' g' where "s' = (st', g')" by (cases s')
  with Inr bo_iteration_Inr [of lib cnn_model vae_model cfg st g st' g']
  obtain model bf c where
    c: "fst (optimize_acqf lib (qExpectedImprovement model bf None) (replicate d 0, replicate d 1)
            (BATCH_SIZE cfg) (NUM_RESTARTS cfg) (RAW_SAMPLES cfg) g) = Inr c"
    by blast
  have "sampler (qExpectedImprovement model bf None) = None"
    by (simp add: qExpectedImprovement_def)
  with assms c show ?thesis by (metis Inl_Inr_False)
qed

theorem acquisition_built_without_sampler_witness:
  "\<exists>e. bo_iteration sampler_required_library flat_net flat_vae (script_config False)
         (initial_state (replicate 5 (replicate d 0)) (replicate 5 flat_score) flat_score, ()) = Inl e"
  using acquisition_built_without_sampler [of sampler_required_library flat_net flat_vae
      "script_config False"
      "initial_state (replicate 5 (replicate d 0)) (replicate 5 flat_score) flat_score" "()"]
  by (simp add: sampler_required_library_def)

end
